theory Spec2Isabelle
  imports Complex_Main "HOL-Library.Char_ord" "HOL-Library.List_Lexorder"
begin

section \<open>Tables as pandas holds them\<close>

text \<open>
  A cell of a loaded CSV is a number, a piece of text, or missing (NaN, \<^verbatim>\<open>pd.NA\<close>).
  Numbers are rationals: every finite float is one, and no property below depends on
  rounding. The two infinities, which pandas reads from the texts \<^verbatim>\<open>inf\<close> and \<^verbatim>\<open>-inf\<close>, are
  not among the cells: the tables spoken of are those without them. A row is an association
  list from column name to cell, a frame is its column index and its rows in order.
\<close>

datatype cell = Num rat | Str string | Null

type_synonym row = "(string \<times> cell) list"

record dataframe =
  columns :: "string list"
  rows :: "row list"

datatype error = KeyError string | TypeError | AttributeError

definition cell_of :: "row \<Rightarrow> string \<Rightarrow> cell" where
  "cell_of r c = (case map_of r c of Some v \<Rightarrow> v | None \<Rightarrow> Null)"

definition set_cell :: "string \<Rightarrow> cell \<Rightarrow> row \<Rightarrow> row" where
  "set_cell c v r = map (\<lambda>(k, x). if k = c then (k, v) else (k, x)) r"

text \<open>\<^verbatim>\<open>df[c]\<close> raises KeyError for a column that is not in the index.\<close>

definition getitem :: "dataframe \<Rightarrow> string \<Rightarrow> error + cell list" where
  "getitem df c =
     (if c \<in> set (columns df) then Inr (map (\<lambda>r. cell_of r c) (rows df))
      else Inl (KeyError c))"

text \<open>\<^verbatim>\<open>df[c] = values\<close> for a column that exists, one value for each row.\<close>

definition setitem :: "dataframe \<Rightarrow> string \<Rightarrow> cell list \<Rightarrow> dataframe" where
  "setitem df c vs = df\<lparr>rows := map (\<lambda>(r, v). set_cell c v r) (zip (rows df) vs)\<rparr>"

text \<open>
  \<^verbatim>\<open>pd.to_numeric(column, errors='coerce')\<close>: a number stays, text is parsed, and text
  that does not parse becomes missing. The parser of text is pandas' own; it is a
  parameter here.
\<close>

fun to_numeric :: "(string \<Rightarrow> rat option) \<Rightarrow> cell \<Rightarrow> cell" where
  "to_numeric parse (Num x) = Num x"
| "to_numeric parse (Str t) = (case parse t of Some x \<Rightarrow> Num x | None \<Rightarrow> Null)"
| "to_numeric parse Null = Null"

text \<open>
  \<^verbatim>\<open>.astype('Int64')\<close> keeps missing cells and raises TypeError when a number is not
  a whole number or does not fit a signed 64-bit integer.
\<close>

fun whole :: "cell \<Rightarrow> bool" where
  "whole (Num x) = (of_int \<lfloor>x\<rfloor> = x \<and> - (2 ^ 63) \<le> x \<and> x < 2 ^ 63)"
| "whole (Str t) = False"
| "whole Null = True"

definition astype_Int64 :: "cell list \<Rightarrow> error + cell list" where
  "astype_Int64 vs = (if list_all whole vs then Inr vs else Inl TypeError)"

text \<open>\<^verbatim>\<open>.isnull().sum()\<close>\<close>

definition isnull_sum :: "cell list \<Rightarrow> nat" where
  "isnull_sum vs = length (filter (\<lambda>v. v = Null) vs)"

text \<open>
  \<^verbatim>\<open>column < k\<close> and \<^verbatim>\<open>column > k\<close>: a missing cell compares false; text against a number
  raises TypeError.
\<close>

fun is_text :: "cell \<Rightarrow> bool" where
  "is_text (Str t) = True"
| "is_text c = False"

fun holds :: "(rat \<Rightarrow> bool) \<Rightarrow> cell \<Rightarrow> bool" where
  "holds p (Num x) = p x"
| "holds p c = False"

definition compare :: "(rat \<Rightarrow> bool) \<Rightarrow> cell list \<Rightarrow> error + bool list" where
  "compare p vs = (if list_ex is_text vs then Inl TypeError else Inr (map (holds p) vs))"

text \<open>\<^verbatim>\<open>.unique()\<close>: the distinct values in order of first appearance.\<close>

definition unique :: "cell list \<Rightarrow> cell list" where
  "unique vs = rev (remdups (rev vs))"

text \<open>
  \<^verbatim>\<open>sorted(values)\<close> where every value is text, which is the only place the validators
  call it (the branch where no value is unexpected).
\<close>

definition sorted_text :: "cell list \<Rightarrow> cell list" where
  "sorted_text vs = map Str (sort (concat (map (\<lambda>v. case v of Str t \<Rightarrow> [t] | _ \<Rightarrow> []) vs)))"

text \<open>The numbers of a column, its missing cells skipped.\<close>

definition numbers :: "cell list \<Rightarrow> rat list" where
  "numbers vs = concat (map (\<lambda>v. case v of Num x \<Rightarrow> [x] | _ \<Rightarrow> []) vs)"

text \<open>
  \<^verbatim>\<open>sorted(column.unique().tolist())\<close> in general. Text sorts as above and numbers by value;
  text beside a number or a missing cell raises TypeError, since Python will not compare
  them. Floats with a NaN among them come back in an order that depends on where the NaN
  stood and on the interpreter's sort: that order is the parameter \<open>with_nan\<close>.
\<close>

definition py_sorted :: "(cell list \<Rightarrow> cell list) \<Rightarrow> cell list \<Rightarrow> error + cell list" where
  "py_sorted with_nan vs =
     (if list_all is_text vs then Inr (sorted_text vs)
      else if list_ex is_text vs then Inl TypeError
      else if length vs \<le> 1 then Inr vs
      else if Null \<in> set vs then Inr (with_nan vs)
      else Inr (map Num (sort (numbers vs))))"

text \<open>Boolean indexing \<^verbatim>\<open>df[mask]\<close> with the mask computed row by row, and \<^verbatim>\<open>df.drop(columns=...)\<close>.\<close>

definition select_rows :: "(row \<Rightarrow> bool) \<Rightarrow> dataframe \<Rightarrow> dataframe" where
  "select_rows keep df = df\<lparr>rows := filter keep (rows df)\<rparr>"

definition drop_columns :: "string list \<Rightarrow> dataframe \<Rightarrow> dataframe" where
  "drop_columns cs df =
     df\<lparr>columns := filter (\<lambda>c. c \<notin> set cs) (columns df),
        rows := map (filter (\<lambda>kv. fst kv \<notin> set cs)) (rows df)\<rparr>"

text \<open>
  \<^verbatim>\<open>column.min()\<close> and \<^verbatim>\<open>column.max()\<close> skip missing cells and give \<^verbatim>\<open>pd.NA\<close> when nothing is
  left; \<^verbatim>\<open>int(...)\<close> of that raises TypeError. \<^verbatim>\<open>column.sum()\<close> skips missing cells too.
  On a column that still holds text (never the case once validateDataTypes has run) the
  model raises TypeError.
\<close>

definition column_min :: "cell list \<Rightarrow> error + cell" where
  "column_min vs =
     (if list_ex is_text vs then Inl TypeError
      else if numbers vs = [] then Inr Null else Inr (Num (Min (set (numbers vs)))))"

definition column_max :: "cell list \<Rightarrow> error + cell" where
  "column_max vs =
     (if list_ex is_text vs then Inl TypeError
      else if numbers vs = [] then Inr Null else Inr (Num (Max (set (numbers vs)))))"

definition column_sum :: "cell list \<Rightarrow> error + rat" where
  "column_sum vs = (if list_ex is_text vs then Inl TypeError else Inr (sum_list (numbers vs)))"

fun py_int :: "cell \<Rightarrow> error + int" where
  "py_int (Num x) = Inr (if 0 \<le> x then \<lfloor>x\<rfloor> else \<lceil>x\<rceil>)"
| "py_int c = Inl TypeError"

section \<open>File discovery\<close>

text \<open>\<^verbatim>\<open>Path.glob\<close> on a pattern whose only wildcard is the star.\<close>

fun glob_match :: "string \<Rightarrow> string \<Rightarrow> bool" where
  "glob_match [] n = (n = [])"
| "glob_match (p # ps) [] = (if p = CHR ''*'' then glob_match ps [] else False)"
| "glob_match (p # ps) (c # cs) =
     (if p = CHR ''*''
      then (if glob_match ps (c # cs) then True else glob_match (p # ps) cs)
      else (if p = c then glob_match ps cs else False))"

text \<open>
  \<^verbatim>\<open>directory / name\<close> for a directory as pathlib prints it, and the output directory itself:
  file name and content, a write replacing a file of the same name.
\<close>

definition path_join :: "string \<Rightarrow> string \<Rightarrow> string" where
  "path_join dir name =
     (if dir = ''.'' then name else if dir = ''/'' then ''/'' @ name else dir @ ''/'' @ name)"

definition write_file :: "string \<Rightarrow> dataframe \<Rightarrow> (string \<times> dataframe) list \<Rightarrow> (string \<times> dataframe) list" where
  "write_file name df files = (name, df) # filter (\<lambda>f. fst f \<noteq> name) files"

section \<open>NonCommercialDataCleaner\<close>

datatype level = INFO | WARNING | ERROR

type_synonym log_record = "level \<times> string \<times> cell list"

text \<open>
  The cleaner's own fields are \<open>data\<close>, \<open>raw_row_count\<close> and \<open>cleaned_row_count\<close>, and the
  path \<open>output_dir_path\<close> it was given for its output directory. The rest is the world it
  acts on: the input directory (each file with what \<^verbatim>\<open>pd.read_csv\<close> makes of it, \<open>None\<close> when
  it raises), the files of the output directory, the date \<^verbatim>\<open>datetime.now()\<close> formats as
  \<^verbatim>\<open>%Y%m%d\<close>, the order Python's sort leaves floats in when a NaN is among them, and the
  log (level, message, interpolated values).
\<close>

record cleaner =
  input_dir :: "(string \<times> dataframe option) list"
  output_dir_path :: string
  output_dir :: "(string \<times> dataframe) list"
  sorted_with_nan :: "cell list \<Rightarrow> cell list"
  today :: string
  logging :: "log_record list"
  data :: "dataframe option"
  raw_row_count :: nat
  cleaned_row_count :: nat

definition log_info :: "string \<Rightarrow> cell list \<Rightarrow> cleaner \<Rightarrow> cleaner" where
  "log_info msg args s = s\<lparr>logging := logging s @ [(INFO, msg, args)]\<rparr>"

definition log_warning :: "string \<Rightarrow> cell list \<Rightarrow> cleaner \<Rightarrow> cleaner" where
  "log_warning msg args s = s\<lparr>logging := logging s @ [(WARNING, msg, args)]\<rparr>"

definition log_error :: "string \<Rightarrow> cell list \<Rightarrow> cleaner \<Rightarrow> cleaner" where
  "log_error msg args s = s\<lparr>logging := logging s @ [(ERROR, msg, args)]\<rparr>"

definition count :: "nat \<Rightarrow> cell" where
  "count n = Num (of_nat n)"

definition noncomm_files :: "(string \<times> dataframe option) list \<Rightarrow> (string \<times> dataframe option) list" where
  "noncomm_files dir =
     (let primary = filter (\<lambda>f. glob_match ''*tidied_noncomm_ev*.csv'' (fst f)) dir
      in if primary = []
         then filter (\<lambda>f. glob_match ''*noncomm_ev*.csv'' (fst f)) dir
         else primary)"

definition loadData :: "cleaner \<Rightarrow> bool \<times> cleaner" where
  "loadData s0 =
     (let s = log_info ''Loading non commercial fisheries data '' [] s0
      in case noncomm_files (input_dir s) of
           [] \<Rightarrow> (False, log_error ''No non commercial data file found'' [] s)
         | (name, parsed) # _ \<Rightarrow>
             (case parsed of
                None \<Rightarrow> (False, log_error ''Error loading non commercial data'' [] s)
              | Some df \<Rightarrow>
                  (True, log_info ''Loaded rows from'' [count (length (rows df)), Str name]
                           (s\<lparr>data := Some df, raw_row_count := length (rows df)\<rparr>))))"

definition required_columns :: "string list" where
  "required_columns =
     [''year'', ''island'', ''county'', ''species_group'', ''ecosystem_type'', ''exchange_value'']"

definition optional_columns :: "string list" where
  "optional_columns = [''island_olelo'', ''county_olelo'', ''exchange_value_formatted'']"

definition validateSchema :: "cleaner \<Rightarrow> (error + bool) \<times> cleaner" where
  "validateSchema s0 =
     (let s = log_info ''Validating data schema '' [] s0
      in case data s of
           None \<Rightarrow> (Inl AttributeError, s)
         | Some df \<Rightarrow>
             (let missing_required = filter (\<lambda>col. col \<notin> set (columns df)) required_columns
              in if missing_required \<noteq> []
                 then (Inr False, log_error ''Missing required columns'' (map Str missing_required) s)
                 else
                   (let present_optional = filter (\<lambda>col. col \<in> set (columns df)) optional_columns;
                        s1 = (if present_optional \<noteq> []
                              then log_info ''Optional columns present'' (map Str present_optional) s
                              else s)
                    in (Inr True, log_info ''Schema validation passed'' [] s1))))"

definition validateDataTypes :: "(string \<Rightarrow> rat option) \<Rightarrow> cleaner \<Rightarrow> (error + unit) \<times> cleaner" where
  "validateDataTypes parse s0 =
     (let s = log_info ''Validating data types '' [] s0
      in case data s of
           None \<Rightarrow> (Inl TypeError, s)
         | Some df \<Rightarrow>
             (case getitem df ''year'' of
                Inl e \<Rightarrow> (Inl e, s)
              | Inr year \<Rightarrow>
                  (case astype_Int64 (map (to_numeric parse) year) of
                     Inl e \<Rightarrow> (Inl e, s)
                   | Inr year' \<Rightarrow>
                       (let df1 = setitem df ''year'' year'
                        in case getitem df1 ''exchange_value'' of
                             Inl e \<Rightarrow> (Inl e, s\<lparr>data := Some df1\<rparr>)
                           | Inr exchange_value \<Rightarrow>
                               (let df2 = setitem df1 ''exchange_value''
                                            (map (to_numeric parse) exchange_value);
                                    null_years = isnull_sum (map (\<lambda>r. cell_of r ''year'') (rows df2));
                                    null_values =
                                      isnull_sum (map (\<lambda>r. cell_of r ''exchange_value'') (rows df2));
                                    s1 = s\<lparr>data := Some df2\<rparr>;
                                    s2 = (if null_years > 0
                                          then log_warning ''Found null years after conversion''
                                                 [count null_years] s1
                                          else s1);
                                    s3 = (if null_values > 0
                                          then log_warning ''Found null exchange values after conversion''
                                                 [count null_values] s2
                                          else s2)
                                in (Inr (), s3))))))"

text \<open>
  validateDataRanges only reports: negative exchange values and years outside 2005-2022
  become warnings, the frame is read and never assigned.
\<close>

definition validateDataRanges :: "cleaner \<Rightarrow> (error + bool) \<times> cleaner" where
  "validateDataRanges s0 =
     (let s = log_info ''Validating data ranges '' [] s0
      in case data s of
           None \<Rightarrow> (Inl TypeError, s)
         | Some df \<Rightarrow>
             (case getitem df ''exchange_value'' of
                Inl e \<Rightarrow> (Inl e, s)
              | Inr exchange_value \<Rightarrow>
                  (case compare (\<lambda>x. x < 0) exchange_value of
                     Inl e \<Rightarrow> (Inl e, s)
                   | Inr negative \<Rightarrow>
                       (let issues1 =
                              (if list_ex id negative
                               then [(''negative exchange values'', [count (length (filter id negative))])]
                               else [])
                        in case getitem df ''year'' of
                             Inl e \<Rightarrow> (Inl e, s)
                           | Inr year \<Rightarrow>
                               (case compare (\<lambda>x. x < 2005) year of
                                  Inl e \<Rightarrow> (Inl e, s)
                                | Inr early \<Rightarrow>
                                    (case compare (\<lambda>x. x > 2022) year of
                                       Inl e \<Rightarrow> (Inl e, s)
                                     | Inr late \<Rightarrow>
                                         (let outside = map (\<lambda>(a, b). a \<or> b) (zip early late);
                                              invalid_years =
                                                unique (map fst (filter snd (zip year outside)));
                                              issues =
                                                (if list_ex id early \<or> list_ex id late
                                                 then issues1 @
                                                      [(''Years outside expected range (2005-2022)'',
                                                        invalid_years)]
                                                 else issues1);
                                              s1 = (if issues \<noteq> []
                                                    then foldl (\<lambda>st issue.
                                                           log_warning (''Data quality issue: '' @ fst issue)
                                                             (snd issue) st) s issues
                                                    else log_info ''Data range validation passed'' [] s)
                                          in (Inr True, s1))))))))"

text \<open>
  The four vocabulary validators are the same code over a column, its expected values and
  its messages: the distinct values of the column that are not expected are logged as a
  warning, and nothing else happens.
\<close>

definition validateVocabulary ::
  "string \<Rightarrow> string \<Rightarrow> string list \<Rightarrow> string \<Rightarrow> string \<Rightarrow> cleaner \<Rightarrow> (error + unit) \<times> cleaner" where
  "validateVocabulary start col expected bad good s0 =
     (let s = log_info start [] s0
      in case data s of
           None \<Rightarrow> (Inl TypeError, s)
         | Some df \<Rightarrow>
             (case getitem df col of
                Inl e \<Rightarrow> (Inl e, s)
              | Inr cells \<Rightarrow>
                  (let unique_values = unique cells;
                       unexpected = filter (\<lambda>e. e \<notin> set (map Str expected)) unique_values
                   in if unexpected \<noteq> []
                      then (Inr (), log_warning bad unexpected s)
                      else (Inr (), log_info good (sorted_text unique_values) s))))"

definition em_dash :: string where
  "em_dash = [CHR 0xE2, CHR 0x80, CHR 0x94]"

definition expected_ecosystems :: "string list" where
  "expected_ecosystems =
     [''Inshore '' @ em_dash @ '' Reef'', ''Coastal '' @ em_dash @ '' Open Ocean'', ''All Ecosystems'']"

definition expected_species :: "string list" where
  "expected_species = [''Herbivores'']"

definition expected_islands :: "string list" where
  "expected_islands = [''Hawaii'', ''Kauai'', ''Lanai'', ''Maui'', ''Molokai'', ''Oahu'']"

definition expected_counties :: "string list" where
  "expected_counties = [''Hawaii'', ''Maui'', ''Honolulu'', ''Kauai'']"

definition validateEcosystemTypes :: "cleaner \<Rightarrow> (error + unit) \<times> cleaner" where
  "validateEcosystemTypes =
     validateVocabulary ''Validating ecosystem types '' ''ecosystem_type'' expected_ecosystems
       ''Unexpected ecosystem types'' ''All ecosystem types valid''"

definition validateSpeciesGroups :: "cleaner \<Rightarrow> (error + unit) \<times> cleaner" where
  "validateSpeciesGroups =
     validateVocabulary ''Validating species groups '' ''species_group'' expected_species
       ''Unexpected species groups'' ''Species group validation passed''"

definition validateIslands :: "cleaner \<Rightarrow> (error + unit) \<times> cleaner" where
  "validateIslands =
     validateVocabulary ''Validating island names '' ''island'' expected_islands
       ''Unexpected island names'' ''All islands valid''"

definition validateCounties :: "cleaner \<Rightarrow> (error + unit) \<times> cleaner" where
  "validateCounties =
     validateVocabulary ''Validating county names '' ''county'' expected_counties
       ''Unexpected county names'' ''All counties valid''"

text \<open>The two stages that remove rows, and the one that removes columns.\<close>

definition notna_exchange_value :: "row \<Rightarrow> bool" where
  "notna_exchange_value r = (cell_of r ''exchange_value'' \<noteq> Null)"

definition is_aggregate :: "row \<Rightarrow> bool" where
  "is_aggregate r = (cell_of r ''ecosystem_type'' \<in> set [Str ''All Ecosystems''])"

definition removeNullValues :: "cleaner \<Rightarrow> (error + unit) \<times> cleaner" where
  "removeNullValues s0 =
     (let s = log_info ''Removing null/NA exchange values '' [] s0
      in case data s of
           None \<Rightarrow> (Inl TypeError, s)
         | Some df \<Rightarrow>
             (let before_count = length (rows df)
              in if ''exchange_value'' \<notin> set (columns df)
                 then (Inl (KeyError ''exchange_value''), s)
                 else
                   (let df' = select_rows notna_exchange_value df;
                        after_count = length (rows df');
                        removed = before_count - after_count;
                        s1 = s\<lparr>data := Some df'\<rparr>
                    in (Inr (),
                        if removed > 0
                        then log_info ''Removed records with null/NA exchange values'' [count removed] s1
                        else log_info ''No null/NA values to remove'' [] s1))))"

definition removeAggregateRows :: "bool \<Rightarrow> cleaner \<Rightarrow> (error + unit) \<times> cleaner" where
  "removeAggregateRows remove_aggregates s0 =
     (if \<not> remove_aggregates
      then (Inr (), log_info ''Skipping aggregate row removal (remove_aggregates=False)'' [] s0)
      else
        (let s = log_info ''Removing aggregate rows '' [] s0
         in case data s of
              None \<Rightarrow> (Inl TypeError, s)
            | Some df \<Rightarrow>
                (let before_count = length (rows df)
                 in if ''ecosystem_type'' \<notin> set (columns df)
                    then (Inl (KeyError ''ecosystem_type''), s)
                    else
                      (let df' = select_rows (\<lambda>r. \<not> is_aggregate r) df;
                           after_count = length (rows df');
                           removed = before_count - after_count;
                           s1 = s\<lparr>data := Some df'\<rparr>
                       in (Inr (),
                           if removed > 0
                           then log_info ''Removed aggregate rows'' [count removed] s1
                           else log_info ''No aggregate rows found to remove'' [] s1)))))"

definition display_columns :: "string list" where
  "display_columns = [''island_olelo'', ''county_olelo'', ''exchange_value_formatted'']"

definition removeDisplayColumns :: "bool \<Rightarrow> cleaner \<Rightarrow> (error + unit) \<times> cleaner" where
  "removeDisplayColumns remove_display s0 =
     (if \<not> remove_display
      then (Inr (), log_info ''Keeping display columns'' [] s0)
      else
        (let s = log_info ''Removing display only columns '' [] s0
         in case data s of
              None \<Rightarrow> (Inl AttributeError, s)
            | Some df \<Rightarrow>
                (let columns_to_drop = filter (\<lambda>col. col \<in> set (columns df)) display_columns
                 in if columns_to_drop \<noteq> []
                    then (Inr (), log_info ''Removed columns'' (map Str columns_to_drop)
                                    (s\<lparr>data := Some (drop_columns columns_to_drop df)\<rparr>))
                    else (Inr (), log_info ''No display columns to remove'' [] s))))"

text \<open>
  exportCleanedData names the file after the date alone, writes the frame there and returns
  the path of the file. A write that the file system refuses is outside the model.
\<close>

definition exportCleanedData :: "cleaner \<Rightarrow> (error + string) \<times> cleaner" where
  "exportCleanedData s0 =
     (let s = log_info ''Exporting cleaned non commercial data '' [] s0
      in case data s of
           None \<Rightarrow> (Inl AttributeError, s)
         | Some df \<Rightarrow>
             (let timestamp = today s;
                  name = ''cleaned_noncommercial_'' @ timestamp @ ''.csv'';
                  output_file = path_join (output_dir_path s) name;
                  s1 = s\<lparr>output_dir := write_file name df (output_dir s),
                         cleaned_row_count := length (rows df)\<rparr>
              in (Inr output_file,
                  log_info ''Exported rows to'' [count (cleaned_row_count s1), Str output_file] s1)))"

text \<open>
  The summary dictionary, its entries computed in the order of the source: the counts, the
  year range, the total and the four sorted lists of distinct values, each of which can
  raise. The total is the exact sum where the code has the float64 sum; nothing below
  reads it. The time stamp and the three group-by breakdowns, which come last and raise
  nothing, are not embedded.
\<close>

record summary =
  data_type :: string
  summary_raw_row_count :: nat
  summary_cleaned_row_count :: nat
  rows_removed :: int
  min_year :: int
  max_year :: int
  total_exchange_value :: rat
  unique_islands :: "cell list"
  unique_counties :: "cell list"
  unique_species_groups :: "cell list"
  unique_ecosystem_types :: "cell list"

definition sorted_unique :: "cleaner \<Rightarrow> dataframe \<Rightarrow> string \<Rightarrow> error + cell list" where
  "sorted_unique s df col =
     (case getitem df col of
        Inl e \<Rightarrow> Inl e
      | Inr cells \<Rightarrow> py_sorted (sorted_with_nan s) (unique cells))"

definition generateSummaryStatistics :: "cleaner \<Rightarrow> (error + summary) \<times> cleaner" where
  "generateSummaryStatistics s0 =
     (let s = log_info ''Generating summary statistics '' [] s0
      in case data s of
           None \<Rightarrow> (Inl TypeError, s)
         | Some df \<Rightarrow>
             (case getitem df ''year'' of
                Inl e \<Rightarrow> (Inl e, s)
              | Inr year \<Rightarrow>
                  (case column_min year of
                     Inl e \<Rightarrow> (Inl e, s)
                   | Inr lo \<Rightarrow>
                       (case py_int lo of
                          Inl e \<Rightarrow> (Inl e, s)
                        | Inr min_y \<Rightarrow>
                            (case column_max year of
                               Inl e \<Rightarrow> (Inl e, s)
                             | Inr hi \<Rightarrow>
                                 (case py_int hi of
                                    Inl e \<Rightarrow> (Inl e, s)
                                  | Inr max_y \<Rightarrow>
                                      (case getitem df ''exchange_value'' of
                                         Inl e \<Rightarrow> (Inl e, s)
                                       | Inr exchange_value \<Rightarrow>
                                           (case column_sum exchange_value of
                                              Inl e \<Rightarrow> (Inl e, s)
                                            | Inr total_value \<Rightarrow>
                                                (case sorted_unique s df ''island'' of
                                                   Inl e \<Rightarrow> (Inl e, s)
                                                 | Inr islands \<Rightarrow>
                                                     (case sorted_unique s df ''county'' of
                                                        Inl e \<Rightarrow> (Inl e, s)
                                                      | Inr counties \<Rightarrow>
                                                          (case sorted_unique s df ''species_group'' of
                                                             Inl e \<Rightarrow> (Inl e, s)
                                                           | Inr species_groups \<Rightarrow>
                                                               (case sorted_unique s df ''ecosystem_type'' of
                                                                  Inl e \<Rightarrow> (Inl e, s)
                                                                | Inr ecosystem_types \<Rightarrow>
                                                                    (Inr \<lparr>data_type = ''non_commercial'',
                                                                          summary_raw_row_count = raw_row_count s,
                                                                          summary_cleaned_row_count = length (rows df),
                                                                          rows_removed =
                                                                            int (raw_row_count s) - int (length (rows df)),
                                                                          min_year = min_y,
                                                                          max_year = max_y,
                                                                          total_exchange_value = total_value,
                                                                          unique_islands = islands,
                                                                          unique_counties = counties,
                                                                          unique_species_groups = species_groups,
                                                                          unique_ecosystem_types = ecosystem_types\<rparr>,
                                                                     s)))))))))))))"

text \<open>
  runCleaningPipeline: the two early returns, then every stage in order. An exception of a
  stage leaves the method at once, with the state as that stage left it.
\<close>

definition and_then :: "('s \<Rightarrow> (error + 'a) \<times> 's) \<Rightarrow> ('a \<Rightarrow> 's \<Rightarrow> (error + 'b) \<times> 's) \<Rightarrow> 's \<Rightarrow> (error + 'b) \<times> 's" where
  "and_then m f s = (case m s of (Inl e, s') \<Rightarrow> (Inl e, s') | (Inr a, s') \<Rightarrow> f a s')"

type_synonym outcome = "bool \<times> string option \<times> summary option"

definition finishPipeline :: "string \<Rightarrow> summary \<Rightarrow> cleaner \<Rightarrow> (error + outcome) \<times> cleaner" where
  "finishPipeline output_file summary s =
     (Inr (True, Some output_file, Some summary),
      log_info ''Removed:'' [Num (of_int (int (raw_row_count s) - int (cleaned_row_count s)))]
        (log_info ''Output:'' [count (cleaned_row_count s)]
          (log_info ''Input:'' [count (raw_row_count s)]
            (log_info ''NON COMMERCIAL DATA CLEANING COMPLETE'' [] s))))"

definition runStages :: "(string \<Rightarrow> rat option) \<Rightarrow> bool \<Rightarrow> bool \<Rightarrow> cleaner \<Rightarrow> (error + outcome) \<times> cleaner" where
  "runStages parse remove_aggregates remove_display =
     and_then (validateDataTypes parse) (\<lambda>_.
     and_then validateDataRanges (\<lambda>_.
     and_then validateEcosystemTypes (\<lambda>_.
     and_then validateSpeciesGroups (\<lambda>_.
     and_then validateIslands (\<lambda>_.
     and_then validateCounties (\<lambda>_.
     and_then removeNullValues (\<lambda>_.
     and_then (removeAggregateRows remove_aggregates) (\<lambda>_.
     and_then (removeDisplayColumns remove_display) (\<lambda>_.
     and_then exportCleanedData (\<lambda>output_file.
     and_then generateSummaryStatistics (\<lambda>summary.
     finishPipeline output_file summary)))))))))))"

definition runCleaningPipeline :: "(string \<Rightarrow> rat option) \<Rightarrow> bool \<Rightarrow> bool \<Rightarrow> cleaner \<Rightarrow> (error + outcome) \<times> cleaner" where
  "runCleaningPipeline parse remove_aggregates remove_display s0 =
     (let s = log_info ''NON COMMERCIAL FISHERIES DATA CLEANING PIPELINE'' [] s0
      in case loadData s of
           (False, s1) \<Rightarrow> (Inr (False, None, None), s1)
         | (True, s1) \<Rightarrow>
             (case validateSchema s1 of
                (Inl e, s2) \<Rightarrow> (Inl e, s2)
              | (Inr False, s2) \<Rightarrow> (Inr (False, None, None), s2)
              | (Inr True, s2) \<Rightarrow> runStages parse remove_aggregates remove_display s2))"

section \<open>FisheriesCleaningPipeline\<close>

text \<open>
  The values the results dictionary holds, and a dictionary as an association list.
  \<^verbatim>\<open>d[k]\<close> raises KeyError for a key that is not there; subscripting \<^verbatim>\<open>None\<close> raises
  TypeError; an empty dictionary and \<^verbatim>\<open>None\<close> are false in a condition.
\<close>

datatype pyval = PNone | PBool bool | PStr string | PSummary summary

type_synonym dict = "(string \<times> pyval) list"

definition subscript :: "dict \<Rightarrow> string \<Rightarrow> error + pyval" where
  "subscript d k = (case map_of d k of None \<Rightarrow> Inl (KeyError k) | Some v \<Rightarrow> Inr v)"

fun truthy :: "pyval \<Rightarrow> bool" where
  "truthy PNone = False"
| "truthy (PBool b) = b"
| "truthy (PStr t) = (t \<noteq> [])"
| "truthy (PSummary sm) = True"

fun present :: "dict option \<Rightarrow> bool" where
  "present None = False"
| "present (Some d) = (d \<noteq> [])"

fun summary_fields :: "pyval \<Rightarrow> error + summary" where
  "summary_fields (PSummary sm) = Inr sm"
| "summary_fields v = Inl TypeError"

fun py_str :: "string option \<Rightarrow> string" where
  "py_str None = ''None''"
| "py_str (Some path) = path"

fun summary_value :: "summary option \<Rightarrow> pyval" where
  "summary_value None = PNone"
| "summary_value (Some sm) = PSummary sm"

text \<open>
  The pipeline owns the two cleaners and the results dictionary with its two keys.
  CommercialDataCleaner is imported from a module that is not part of the sources at hand:
  its state is the type parameter, and its runCleaningPipeline is a parameter \<open>run_commercial\<close>
  of every method that calls it, returning the same triple, with a summary of the same
  entries, as the non-commercial one.
\<close>

record 'c pipeline =
  commercial_cleaner :: 'c
  noncommercial_cleaner :: cleaner
  results_commercial :: "dict option"
  results_non_commercial :: "dict option"
  pipeline_logging :: "log_record list"
  now :: string

type_synonym 'c commercial_run = "bool \<Rightarrow> bool \<Rightarrow> 'c \<Rightarrow> (error + outcome) \<times> 'c"

definition pipeline_info :: "string \<Rightarrow> cell list \<Rightarrow> 'c pipeline \<Rightarrow> 'c pipeline" where
  "pipeline_info msg args p = p\<lparr>pipeline_logging := pipeline_logging p @ [(INFO, msg, args)]\<rparr>"

definition success_record :: "string option \<Rightarrow> summary option \<Rightarrow> dict" where
  "success_record output_file summary =
     [(''success'', PBool True), (''output_file'', PStr (py_str output_file)),
      (''summary'', summary_value summary)]"

definition failure_record :: "string \<Rightarrow> dict" where
  "failure_record msg = [(''success'', PBool False), (''error'', PStr msg)]"

definition runCommercialCleaning ::
  "'c commercial_run \<Rightarrow> bool \<Rightarrow> bool \<Rightarrow> 'c pipeline \<Rightarrow> (error + bool) \<times> 'c pipeline" where
  "runCommercialCleaning run_commercial remove_aggregates remove_display p0 =
     (let p = pipeline_info ''STARTING COMMERCIAL DATA CLEANING'' [] p0
      in case run_commercial remove_aggregates remove_display (commercial_cleaner p) of
           (Inl e, c) \<Rightarrow> (Inl e, p\<lparr>commercial_cleaner := c\<rparr>)
         | (Inr (success, output_file, summary), c) \<Rightarrow>
             (if success
              then (Inr True, p\<lparr>commercial_cleaner := c,
                                 results_commercial := Some (success_record output_file summary)\<rparr>)
              else (Inr False, p\<lparr>commercial_cleaner := c,
                                  results_commercial :=
                                    Some (failure_record ''Commercial data cleaning failed'')\<rparr>)))"

definition runNoncommercialCleaning ::
  "(string \<Rightarrow> rat option) \<Rightarrow> bool \<Rightarrow> bool \<Rightarrow> 'c pipeline \<Rightarrow> (error + bool) \<times> 'c pipeline" where
  "runNoncommercialCleaning parse remove_aggregates remove_display p0 =
     (let p = pipeline_info ''STARTING NON COMMERCIAL DATA CLEANING'' [] p0
      in case runCleaningPipeline parse remove_aggregates remove_display (noncommercial_cleaner p) of
           (Inl e, c) \<Rightarrow> (Inl e, p\<lparr>noncommercial_cleaner := c\<rparr>)
         | (Inr (success, output_file, summary), c) \<Rightarrow>
             (if success
              then (Inr True, p\<lparr>noncommercial_cleaner := c,
                                 results_non_commercial := Some (success_record output_file summary)\<rparr>)
              else (Inr False, p\<lparr>noncommercial_cleaner := c,
                                  results_non_commercial :=
                                    Some (failure_record ''Non commercial data cleaning failed'')\<rparr>)))"

text \<open>
  generateCombinedSummary. The guard of each summary entry, and the guard of the overall
  section, is the truth value of the results entry itself, not of its success flag.
\<close>

record overall =
  total_records :: nat
  overall_total_exchange_value :: rat
  combined_min_year :: int
  combined_max_year :: int

record combined_summary =
  pipeline_timestamp :: string
  commercial :: pyval
  non_commercial :: pyval
  overall :: "overall option"

definition summary_entry :: "dict option \<Rightarrow> error + pyval" where
  "summary_entry r = (case r of None \<Rightarrow> Inr PNone
                      | Some d \<Rightarrow> if d = [] then Inr PNone else subscript d ''summary'')"

definition summary_of :: "dict option \<Rightarrow> error + summary" where
  "summary_of r = (case r of None \<Rightarrow> Inl TypeError
                   | Some d \<Rightarrow> (case subscript d ''summary'' of
                                  Inl e \<Rightarrow> Inl e
                                | Inr v \<Rightarrow> summary_fields v))"

definition generateCombinedSummary :: "'c pipeline \<Rightarrow> (error + combined_summary) \<times> 'c pipeline" where
  "generateCombinedSummary p0 =
     (let p = pipeline_info ''Generating combined summary statistics...'' [] p0
      in case summary_entry (results_commercial p) of
           Inl e \<Rightarrow> (Inl e, p)
         | Inr comm \<Rightarrow>
             (case summary_entry (results_non_commercial p) of
                Inl e \<Rightarrow> (Inl e, p)
              | Inr noncomm \<Rightarrow>
                  (let combined = \<lparr>pipeline_timestamp = now p, commercial = comm,
                                    non_commercial = noncomm, overall = None\<rparr>
                   in if present (results_commercial p) \<and> present (results_non_commercial p)
                      then (case summary_of (results_commercial p) of
                              Inl e \<Rightarrow> (Inl e, p)
                            | Inr c \<Rightarrow>
                                (case summary_of (results_non_commercial p) of
                                   Inl e \<Rightarrow> (Inl e, p)
                                 | Inr n \<Rightarrow>
                                     (Inr (combined\<lparr>overall := Some
                                        \<lparr>total_records =
                                           summary_cleaned_row_count c + summary_cleaned_row_count n,
                                         overall_total_exchange_value =
                                           total_exchange_value c + total_exchange_value n,
                                         combined_min_year = min (min_year c) (min_year n),
                                         combined_max_year = max (max_year c) (max_year n)\<rparr>\<rparr>), p)))
                      else (Inr combined, p))))"

text \<open>
  generatePipelineReport logs one section for each dataset: the figures of its summary when
  the entry is there and its success flag is true, the word FAILED otherwise. The sections
  end differently: counties and species for the commercial data, islands for the other.
  The commercial section has one more line, the number of \<^verbatim>\<open>unique_area_ids\<close>, an entry that
  only the summary of the commercial cleaner has; it is left out with that cleaner.
\<close>

definition commercial_lines :: "summary \<Rightarrow> log_record list" where
  "commercial_lines sm =
     [(INFO, ''  Counties:'', [count (length (unique_counties sm))]),
      (INFO, ''  Species:'', [count (length (unique_species_groups sm))])]"

definition noncommercial_lines :: "summary \<Rightarrow> log_record list" where
  "noncommercial_lines sm = [(INFO, ''  Islands:'', [count (length (unique_islands sm))])]"

definition report_section ::
  "string \<Rightarrow> (summary \<Rightarrow> log_record list) \<Rightarrow> dict option \<Rightarrow> error + log_record list" where
  "report_section title last_lines r =
     (case r of
        None \<Rightarrow> Inr [(INFO, title @ '' FAILED'', [])]
      | Some d \<Rightarrow>
          (if d = [] then Inr [(INFO, title @ '' FAILED'', [])]
           else case subscript d ''success'' of
                  Inl e \<Rightarrow> Inl e
                | Inr ok \<Rightarrow>
                    (if \<not> truthy ok then Inr [(INFO, title @ '' FAILED'', [])]
                     else case subscript d ''summary'' of
                            Inl e \<Rightarrow> Inl e
                          | Inr v \<Rightarrow>
                              (case summary_fields v of
                                 Inl e \<Rightarrow> Inl e
                               | Inr sm \<Rightarrow>
                                   Inr ([(INFO, title, []),
                                         (INFO, ''  Status: SUCCESS'', []),
                                         (INFO, ''  Input Rows:'', [count (summary_raw_row_count sm)]),
                                         (INFO, ''  Output Rows:'', [count (summary_cleaned_row_count sm)]),
                                         (INFO, ''  Removed:'', [Num (of_int (rows_removed sm))]),
                                         (INFO, ''  Date Range:'',
                                            [Num (of_int (min_year sm)), Num (of_int (max_year sm))]),
                                         (INFO, ''  Total Value:'', [Num (total_exchange_value sm)])]
                                        @ last_lines sm)))))"

definition generatePipelineReport :: "'c pipeline \<Rightarrow> (error + unit) \<times> 'c pipeline" where
  "generatePipelineReport p0 =
     (let p = pipeline_info ''FISHERIES DATA CLEANING PIPELINE : FINAL REPORT'' [] p0
      in case report_section ''COMMERCIAL FISHERIES:'' commercial_lines (results_commercial p) of
           Inl e \<Rightarrow> (Inl e, p)
         | Inr lines1 \<Rightarrow>
             (let p1 = p\<lparr>pipeline_logging := pipeline_logging p @ lines1\<rparr>
              in case report_section ''NON COMMERCIAL FISHERIES:'' noncommercial_lines
                        (results_non_commercial p1) of
                   Inl e \<Rightarrow> (Inl e, p1)
                 | Inr lines2 \<Rightarrow>
                     (Inr (), p1\<lparr>pipeline_logging := pipeline_logging p1 @ lines2\<rparr>)))"

text \<open>
  setupLogging creates the log file and announces it; runFullPipeline then logs its
  directories and flags, runs the two cleaners one after the other, reports, and returns
  the conjunction of their flags. Nothing in it catches an exception.
\<close>

definition setupLogging :: "'c pipeline \<Rightarrow> 'c pipeline" where
  "setupLogging p = pipeline_info ''Logging initialized'' [] p"

definition py_bool :: "bool \<Rightarrow> cell" where
  "py_bool b = Str (if b then ''True'' else ''False'')"

definition startPipeline :: "bool \<Rightarrow> bool \<Rightarrow> 'c pipeline \<Rightarrow> 'c pipeline" where
  "startPipeline remove_aggregates remove_display p =
     pipeline_info ''Remove Display Columns:'' [py_bool remove_display]
       (pipeline_info ''Remove Aggregates:'' [py_bool remove_aggregates]
         (pipeline_info ''Output Directory:'' []
           (pipeline_info ''Input Directory:'' []
             (pipeline_info ''FISHERIES DATA CLEANING PIPELINE - START'' [] (setupLogging p)))))"

definition runFullPipeline ::
  "'c commercial_run \<Rightarrow> (string \<Rightarrow> rat option) \<Rightarrow> bool \<Rightarrow> bool \<Rightarrow> 'c pipeline
     \<Rightarrow> (error + bool) \<times> 'c pipeline" where
  "runFullPipeline run_commercial parse remove_aggregates remove_display p0 =
     (let p = startPipeline remove_aggregates remove_display p0
      in case runCommercialCleaning run_commercial remove_aggregates remove_display p of
           (Inl e, p1) \<Rightarrow> (Inl e, p1)
         | (Inr comm_success, p1) \<Rightarrow>
             (case runNoncommercialCleaning parse remove_aggregates remove_display p1 of
                (Inl e, p2) \<Rightarrow> (Inl e, p2)
              | (Inr noncomm_success, p2) \<Rightarrow>
                  (case generatePipelineReport p2 of
                     (Inl e, p3) \<Rightarrow> (Inl e, p3)
                   | (Inr u, p3) \<Rightarrow>
                       (let overall_success = (comm_success \<and> noncomm_success)
                        in (Inr overall_success,
                            if overall_success
                            then pipeline_info ''Pipeline Status: SUCCESS'' [] p3
                            else pipeline_info ''Pipeline Status: PARTIAL SUCCESS OR FAILURE'' [] p3)))))"

section \<open>The stages as functions of the loaded frame\<close>

text \<open>
  The properties below speak of what a run does to the frame that was loaded. These
  definitions name the pieces: the part of the cleaner that no validator may touch, the
  effect of each stage on a frame, and the frame a run exports.
\<close>

text \<open>Everything the cleaner holds or acts on, apart from the frame and the log.\<close>

definition world ::
  "cleaner \<Rightarrow> (string \<times> dataframe option) list \<times> string \<times> (string \<times> dataframe) list \<times> string \<times> nat \<times> nat" where
  "world s =
     (input_dir s, output_dir_path s, output_dir s, today s, raw_row_count s, cleaned_row_count s)"

text \<open>validateDataTypes on one row and on a frame; the years are whole when \<^verbatim>\<open>astype('Int64')\<close> accepts them.\<close>

definition coerce_row :: "(string \<Rightarrow> rat option) \<Rightarrow> row \<Rightarrow> row" where
  "coerce_row parse r =
     set_cell ''exchange_value'' (to_numeric parse (cell_of r ''exchange_value''))
       (set_cell ''year'' (to_numeric parse (cell_of r ''year'')) r)"

definition coerce :: "(string \<Rightarrow> rat option) \<Rightarrow> dataframe \<Rightarrow> dataframe" where
  "coerce parse df = df\<lparr>rows := map (coerce_row parse) (rows df)\<rparr>"

definition years_whole :: "(string \<Rightarrow> rat option) \<Rightarrow> dataframe \<Rightarrow> bool" where
  "years_whole parse df = list_all (\<lambda>r. whole (to_numeric parse (cell_of r ''year''))) (rows df)"

text \<open>No text is left in the two numeric columns.\<close>

definition numeric :: "dataframe \<Rightarrow> bool" where
  "numeric df =
     list_all (\<lambda>r. \<not> is_text (cell_of r ''year'') \<and> \<not> is_text (cell_of r ''exchange_value'')) (rows df)"

text \<open>
  removeAggregateRows and removeDisplayColumns on a frame, the name exportCleanedData
  writes to and the path it returns.
\<close>

definition without_aggregates :: "bool \<Rightarrow> dataframe \<Rightarrow> dataframe" where
  "without_aggregates ra df =
     (if ra then select_rows (\<lambda>r. \<not> is_aggregate r) df else df)"

definition without_display :: "bool \<Rightarrow> dataframe \<Rightarrow> dataframe" where
  "without_display rd df =
     (if rd then drop_columns (filter (\<lambda>col. col \<in> set (columns df)) display_columns) df else df)"

definition output_name :: "string \<Rightarrow> string" where
  "output_name date = ''cleaned_noncommercial_'' @ date @ ''.csv''"

definition output_path :: "cleaner \<Rightarrow> string" where
  "output_path s = path_join (output_dir_path s) (output_name (today s))"

text \<open>The frame a run exports, given the frame it loaded.\<close>

definition clean :: "(string \<Rightarrow> rat option) \<Rightarrow> bool \<Rightarrow> bool \<Rightarrow> dataframe \<Rightarrow> dataframe" where
  "clean parse ra rd df =
     without_display rd (without_aggregates ra (select_rows notna_exchange_value (coerce parse df)))"

definition year_column :: "dataframe \<Rightarrow> cell list" where
  "year_column df = map (\<lambda>r. cell_of r ''year'') (rows df)"

text \<open>
  generateSummaryStatistics returns for a cleaned frame when some year is left and no
  vocabulary column holds text beside a number or a missing cell.
\<close>

definition unmixed :: "dataframe \<Rightarrow> string \<Rightarrow> bool" where
  "unmixed df col =
     (if list_ex is_text (map (\<lambda>r. cell_of r col) (rows df))
      then list_all is_text (map (\<lambda>r. cell_of r col) (rows df))
      else True)"

definition summarisable :: "dataframe \<Rightarrow> bool" where
  "summarisable df =
     (numbers (year_column df) \<noteq> [] \<and> unmixed df ''island'' \<and> unmixed df ''county''
      \<and> unmixed df ''species_group'' \<and> unmixed df ''ecosystem_type'')"

text \<open>What validateDataTypes logs, given the frame it leaves.\<close>

definition type_log :: "dataframe \<Rightarrow> log_record list" where
  "type_log df =
     (INFO, ''Validating data types '', []) #
     (if isnull_sum (map (\<lambda>r. cell_of r ''year'') (rows df)) > 0
      then [(WARNING, ''Found null years after conversion'',
             [count (isnull_sum (map (\<lambda>r. cell_of r ''year'') (rows df)))])]
      else []) @
     (if isnull_sum (map (\<lambda>r. cell_of r ''exchange_value'') (rows df)) > 0
      then [(WARNING, ''Found null exchange values after conversion'',
             [count (isnull_sum (map (\<lambda>r. cell_of r ''exchange_value'') (rows df)))])]
      else [])"

text \<open>One row of the exported frame, from the row of the loaded frame it comes from.\<close>

definition cleaned_row :: "(string \<Rightarrow> rat option) \<Rightarrow> bool \<Rightarrow> dataframe \<Rightarrow> row \<Rightarrow> row" where
  "cleaned_row parse rd df r =
     (if rd
      then filter (\<lambda>kv. fst kv \<notin> set (filter (\<lambda>col. col \<in> set (columns df)) display_columns))
             (coerce_row parse r)
      else coerce_row parse r)"

definition survives :: "(string \<Rightarrow> rat option) \<Rightarrow> bool \<Rightarrow> row \<Rightarrow> bool" where
  "survives parse ra r =
     (notna_exchange_value (coerce_row parse r) \<and> (if ra then \<not> is_aggregate r else True))"

subsection \<open>A small input\<close>

text \<open>
  Three rows: a reef row, an All Ecosystems rollup, and a row whose exchange value is the
  text n/a, on an island outside the expected six. No text parses as a number.
\<close>

definition example_parse :: "string \<Rightarrow> rat option" where
  "example_parse t = None"

definition example_row :: "rat \<Rightarrow> string \<Rightarrow> string \<Rightarrow> cell \<Rightarrow> row" where
  "example_row y island eco v =
     [(''year'', Num y), (''island'', Str island), (''county'', Str ''Honolulu''),
      (''species_group'', Str ''Herbivores''), (''ecosystem_type'', Str eco),
      (''exchange_value'', v)]"

definition example_frame :: dataframe where
  "example_frame =
     \<lparr>columns = required_columns,
      rows = [example_row 2005 ''Oahu'' ''Reef'' (Num 100),
              example_row 2006 ''Oahu'' ''All Ecosystems'' (Num 250),
              example_row 2006 ''Niihau'' ''Reef'' (Str ''n/a'')]\<rparr>"

definition example_cleaner :: cleaner where
  "example_cleaner =
     \<lparr>input_dir = [(''tidied_noncomm_ev.csv'', Some example_frame)],
      output_dir_path = ''data/cleaned'', output_dir = [], sorted_with_nan = (\<lambda>vs. vs),
      today = ''20260223'', logging = [], data = None, raw_row_count = 0, cleaned_row_count = 0\<rparr>"

text \<open>A file whose only row has no exchange value, a file without the island column, and an empty frame.\<close>

definition example_null_frame :: dataframe where
  "example_null_frame =
     \<lparr>columns = required_columns, rows = [example_row 2006 ''Oahu'' ''Reef'' Null]\<rparr>"

definition example_null_cleaner :: cleaner where
  "example_null_cleaner =
     example_cleaner\<lparr>input_dir := [(''tidied_noncomm_ev.csv'', Some example_null_frame)]\<rparr>"

definition example_bad_frame :: dataframe where
  "example_bad_frame =
     \<lparr>columns = [''year'', ''county'', ''species_group'', ''ecosystem_type'', ''exchange_value''],
      rows = []\<rparr>"

definition example_bad_cleaner :: cleaner where
  "example_bad_cleaner =
     example_cleaner\<lparr>input_dir := [(''tidied_noncomm_ev.csv'', Some example_bad_frame)]\<rparr>"

definition example_empty_frame :: dataframe where
  "example_empty_frame = \<lparr>columns = required_columns, rows = []\<rparr>"

text \<open>A file whose one row, a rollup, has the year \<open>2 ^ 63\<close>, one more than a 64-bit integer holds.\<close>

definition example_big_year_frame :: dataframe where
  "example_big_year_frame =
     \<lparr>columns = required_columns,
      rows = [example_row 9223372036854775808 ''Oahu'' ''All Ecosystems'' (Num 250)]\<rparr>"

definition example_big_year_cleaner :: cleaner where
  "example_big_year_cleaner =
     example_cleaner\<lparr>input_dir := [(''tidied_noncomm_ev.csv'', Some example_big_year_frame)]\<rparr>"

text \<open>
  A pipeline over the small inputs. The commercial cleaner stands for one that succeeds
  with 92 of 100 rows; its state is not looked at.
\<close>

definition example_summary :: summary where
  "example_summary =
     \<lparr>data_type = ''commercial'', summary_raw_row_count = 100, summary_cleaned_row_count = 92,
      rows_removed = 8, min_year = 1997, max_year = 2021, total_exchange_value = 10000000,
      unique_islands = [], unique_counties = [Str ''Honolulu'', Str ''Maui''],
      unique_species_groups = [Str ''Pelagics''], unique_ecosystem_types = [Str ''All Ecosystems'']\<rparr>"

definition example_commercial :: "unit commercial_run" where
  "example_commercial ra rd c =
     (Inr (True, Some ''data/cleaned/cleaned_commercial_20260223.csv'', Some example_summary), c)"

definition example_pipeline :: "cleaner \<Rightarrow> unit pipeline" where
  "example_pipeline noncommercial =
     \<lparr>commercial_cleaner = (), noncommercial_cleaner = noncommercial,
      results_commercial = None, results_non_commercial = None,
      pipeline_logging = [], now = ''2026-02-23T09:00:00''\<rparr>"

definition example_commercial_failing :: "unit commercial_run" where
  "example_commercial_failing ra rd c = (Inr (False, None, None), c)"

text \<open>
  Three runs to look at: the two cleaning methods of the pipeline called one after the
  other, with the commercial data in order and no non-commercial file to be found; and
  the cleaner run twice on the same date, first with \<open>remove_aggregates\<close> on, then off.
\<close>

definition example_partial_failure :: "unit pipeline" where
  "example_partial_failure =
     snd (runNoncommercialCleaning example_parse True False
       (snd (runCommercialCleaning example_commercial True False
          (example_pipeline (example_cleaner\<lparr>input_dir := []\<rparr>)))))"

definition example_first_run :: cleaner where
  "example_first_run = snd (runCleaningPipeline example_parse True False example_cleaner)"

definition example_second_run :: cleaner where
  "example_second_run = snd (runCleaningPipeline example_parse False False example_first_run)"

section \<open>What each stage does\<close>

lemma cell_of_set_cell_other: "c \<noteq> c' \<Longrightarrow> cell_of (set_cell c v r) c' = cell_of r c'"
  by (induction r) (auto simp: cell_of_def set_cell_def)

lemma cell_of_set_cell_same: "cell_of (set_cell c v r) c = (if c \<in> fst ` set r then v else Null)"
  by (induction r) (auto simp: cell_of_def set_cell_def)

lemma setitem_map: "setitem df c (map f (rows df)) = df\<lparr>rows := map (\<lambda>r. set_cell c (f r) r) (rows df)\<rparr>"
  by (simp add: setitem_def zip_map2 zip_same_conv_map)

lemma to_numeric_not_text: "\<not> is_text (to_numeric parse v)"
  by (cases v) (auto split: option.splits)

lemma to_numeric_idem: "to_numeric parse (to_numeric parse v) = to_numeric parse v"
  by (cases v) (auto split: option.splits)

lemma world_log [simp]: "world (log_info m a s) = world s" "world (log_warning m a s) = world s" "world (log_error m a s) = world s"
  by (simp_all add: world_def log_info_def log_warning_def log_error_def)

lemma data_log [simp]: "data (log_info m a s) = data s" "data (log_warning m a s) = data s" "data (log_error m a s) = data s"
  by (simp_all add: log_info_def log_warning_def log_error_def)

lemma fields_log_info [simp]:
  "input_dir (log_info m a s) = input_dir s" "output_dir (log_info m a s) = output_dir s"
  "today (log_info m a s) = today s" "raw_row_count (log_info m a s) = raw_row_count s"
  "cleaned_row_count (log_info m a s) = cleaned_row_count s"
  "output_dir_path (log_info m a s) = output_dir_path s"
  "sorted_with_nan (log_info m a s) = sorted_with_nan s"
  by (simp_all add: log_info_def)

lemma world_data_upd [simp]: "world (s\<lparr>data := d\<rparr>) = world s"
  by (simp add: world_def)

lemma foldl_warning_frame: "world (foldl (\<lambda>st issue. log_warning (f issue) (g issue) st) s issues) = world s \<and> data (foldl (\<lambda>st issue. log_warning (f issue) (g issue) st) s issues) = data s"
  by (induction issues arbitrary: s) auto

lemma validateDataRanges_frame: "validateDataRanges s = (r, s') \<Longrightarrow> data s' = data s \<and> world s' = world s"
  by (auto simp: validateDataRanges_def Let_def foldl_warning_frame split: option.splits sum.splits if_splits)

lemma validateVocabulary_frame: "validateVocabulary a c ex b g s = (r, s') \<Longrightarrow> data s' = data s \<and> world s' = world s"
  by (auto simp: validateVocabulary_def Let_def split: option.splits sum.splits if_splits)

lemma fst_set_cell [simp]: "fst ` set (set_cell c v r) = fst ` set r"
  by (induction r) (auto simp: set_cell_def)

lemma columns_setitem [simp]: "columns (setitem df c vs) = columns df"
  by (simp add: setitem_def)

lemma setitem_map2:
  "setitem (df\<lparr>rows := map h rs\<rparr>) c (map f rs) = df\<lparr>rows := map (\<lambda>r. set_cell c (f r) (h r)) rs\<rparr>"
  by (simp add: setitem_def zip_map_map zip_same_conv_map)

lemma coerce_twice:
  "setitem (setitem df ''year'' (map (\<lambda>r. to_numeric parse (cell_of r ''year'')) (rows df))) ''exchange_value''
     (map (to_numeric parse) (map (\<lambda>r. cell_of r ''exchange_value'')
        (rows (setitem df ''year'' (map (\<lambda>r. to_numeric parse (cell_of r ''year'')) (rows df))))))
   = coerce parse df"
  by (simp add: setitem_map setitem_map2 o_def coerce_def coerce_row_def cell_of_set_cell_other)

lemma validateDataTypes_frame: "validateDataTypes parse s = (r, s') \<Longrightarrow> world s' = world s"
  by (auto simp: validateDataTypes_def Let_def split: option.splits sum.splits if_splits)

lemma validateDataTypes_Inr:
  assumes "validateDataTypes parse s = (Inr u, s')"
  shows "\<exists>df. data s = Some df \<and> data s' = Some (coerce parse df) \<and> years_whole parse df
           \<and> ''year'' \<in> set (columns df) \<and> ''exchange_value'' \<in> set (columns df)"
proof -
  from assms obtain df where df: "data s = Some df"
    by (auto simp: validateDataTypes_def Let_def split: option.splits)
  from assms df have y: "''year'' \<in> set (columns df)"
    by (auto simp: validateDataTypes_def Let_def getitem_def split: option.splits sum.splits if_splits)
  from assms df y have w: "years_whole parse df"
    by (auto simp: validateDataTypes_def Let_def getitem_def astype_Int64_def years_whole_def list_all_iff
        split: option.splits sum.splits if_splits)
  from assms df y w have e: "''exchange_value'' \<in> set (columns df)"
    by (auto simp: validateDataTypes_def Let_def getitem_def astype_Int64_def years_whole_def list_all_iff
        split: option.splits sum.splits if_splits)
  have "data s' = Some (coerce parse df)"
    using assms df y w e coerce_twice [of df parse]
    by (auto simp: validateDataTypes_def Let_def getitem_def astype_Int64_def years_whole_def list_all_iff o_def
        split: option.splits sum.splits if_splits)
  with df y w e show ?thesis by blast
qed

lemma validateDataTypes_ok:
  assumes "data s = Some df" "''year'' \<in> set (columns df)" "''exchange_value'' \<in> set (columns df)"
    "years_whole parse df"
  shows "\<exists>s'. validateDataTypes parse s = (Inr (), s')"
  using assms
  by (auto simp: validateDataTypes_def Let_def getitem_def astype_Int64_def years_whole_def list_all_iff o_def
        split: option.splits sum.splits if_splits)

lemma numeric_coerce: "numeric (coerce parse df)"
  by (simp add: numeric_def coerce_def coerce_row_def list_all_iff cell_of_set_cell_other
      cell_of_set_cell_same to_numeric_not_text)

lemma numeric_select_rows: "numeric df \<Longrightarrow> numeric (select_rows keep df)"
  by (simp add: numeric_def select_rows_def list_all_iff)

lemma cell_of_filter_keys: "c \<notin> set cs \<Longrightarrow> cell_of (filter (\<lambda>kv. fst kv \<notin> set cs) r) c = cell_of r c"
  by (induction r) (auto simp: cell_of_def)

lemma numeric_drop_columns:
  "''year'' \<notin> set cs \<Longrightarrow> ''exchange_value'' \<notin> set cs \<Longrightarrow> numeric df \<Longrightarrow> numeric (drop_columns cs df)"
  by (simp add: numeric_def drop_columns_def list_all_iff cell_of_filter_keys)

lemma numeric_no_text:
  "numeric df \<Longrightarrow> \<not> list_ex is_text (map (\<lambda>r. cell_of r ''year'') (rows df))"
  "numeric df \<Longrightarrow> \<not> list_ex is_text (map (\<lambda>r. cell_of r ''exchange_value'') (rows df))"
  by (auto simp: numeric_def list_all_iff list_ex_iff)

lemma validateDataRanges_ok:
  assumes "data s = Some df" "''year'' \<in> set (columns df)" "''exchange_value'' \<in> set (columns df)"
    "numeric df"
  shows "\<exists>s'. validateDataRanges s = (Inr True, s')"
  using assms numeric_no_text [of df]
  by (simp add: validateDataRanges_def Let_def getitem_def compare_def)

lemma validateVocabulary_ok:
  assumes "data s = Some df" "c \<in> set (columns df)"
  shows "\<exists>s'. validateVocabulary a c ex b g s = (Inr (), s')"
  using assms by (simp add: validateVocabulary_def Let_def getitem_def)

lemma removeNullValues_frame: "removeNullValues s = (r, s') \<Longrightarrow> world s' = world s"
  by (auto simp: removeNullValues_def Let_def split: option.splits if_splits)

lemma removeNullValues_ok:
  assumes "data s = Some df" "''exchange_value'' \<in> set (columns df)"
  shows "\<exists>s'. removeNullValues s = (Inr (), s') \<and> data s' = Some (select_rows notna_exchange_value df)"
  using assms by (simp add: removeNullValues_def Let_def)

lemma removeNullValues_Inr:
  assumes "removeNullValues s = (Inr u, s')"
  shows "\<exists>df. data s = Some df \<and> data s' = Some (select_rows notna_exchange_value df)"
  using assms by (auto simp: removeNullValues_def Let_def split: option.splits if_splits)

lemma removeAggregateRows_frame: "removeAggregateRows ra s = (r, s') \<Longrightarrow> world s' = world s"
  by (auto simp: removeAggregateRows_def Let_def split: option.splits if_splits)

lemma removeAggregateRows_ok:
  assumes "data s = Some df" "''ecosystem_type'' \<in> set (columns df)"
  shows "\<exists>s'. removeAggregateRows ra s = (Inr (), s') \<and> data s' = Some (without_aggregates ra df)"
  using assms by (simp add: removeAggregateRows_def without_aggregates_def Let_def)

lemma removeAggregateRows_Inr:
  assumes "removeAggregateRows ra s = (Inr u, s')" "data s = Some df"
  shows "data s' = Some (without_aggregates ra df)"
  using assms by (auto simp: removeAggregateRows_def without_aggregates_def Let_def split: option.splits if_splits)

lemma drop_columns_Nil: "drop_columns [] df = df"
proof -
  have "filter (\<lambda>kv::string \<times> cell. True) = (\<lambda>r. r)" by (rule ext) simp
  then show ?thesis by (simp add: drop_columns_def)
qed

lemma removeDisplayColumns_frame: "removeDisplayColumns rd s = (r, s') \<Longrightarrow> world s' = world s"
  by (auto simp: removeDisplayColumns_def Let_def split: option.splits if_splits)

lemma removeDisplayColumns_ok:
  assumes "data s = Some df"
  shows "\<exists>s'. removeDisplayColumns rd s = (Inr (), s') \<and> data s' = Some (without_display rd df)"
  using assms by (simp add: removeDisplayColumns_def without_display_def Let_def drop_columns_Nil)

lemma removeDisplayColumns_Inr:
  assumes "removeDisplayColumns rd s = (Inr u, s')" "data s = Some df"
  shows "data s' = Some (without_display rd df)"
  using assms
  by (auto simp: removeDisplayColumns_def without_display_def Let_def drop_columns_Nil split: option.splits if_splits)

lemma exportCleanedData_Some:
  assumes "data s = Some df"
  shows "\<exists>s'. exportCleanedData s = (Inr (output_path s), s') \<and> data s' = Some df
           \<and> output_dir s' = write_file (output_name (today s)) df (output_dir s)
           \<and> cleaned_row_count s' = length (rows df) \<and> raw_row_count s' = raw_row_count s
           \<and> today s' = today s \<and> input_dir s' = input_dir s
           \<and> output_dir_path s' = output_dir_path s"
  using assms by (simp add: exportCleanedData_def Let_def output_name_def output_path_def log_info_def)

lemma generateSummaryStatistics_state:
  "generateSummaryStatistics s = (r, s') \<Longrightarrow> s' = log_info ''Generating summary statistics '' [] s"
  by (auto simp: generateSummaryStatistics_def Let_def split: option.splits sum.splits)

lemma set_unique [simp]: "set (unique vs) = set vs"
  by (simp add: unique_def)

lemma py_sorted_unmixed:
  "(if list_ex is_text vs then list_all is_text vs else True) \<Longrightarrow> \<exists>l. py_sorted w vs = Inr l"
  by (auto simp: py_sorted_def)

lemma py_sorted_mixed:
  "\<not> (if list_ex is_text vs then list_all is_text vs else True) \<Longrightarrow> py_sorted w vs = Inl TypeError"
  by (auto simp: py_sorted_def split: if_splits)

lemma sorted_unique_unmixed:
  assumes "col \<in> set (columns df)" "unmixed df col"
  shows "\<exists>l. sorted_unique s df col = Inr l"
proof -
  let ?vs = "map (\<lambda>r. cell_of r col) (rows df)"
  from assms(2) have "if list_ex is_text (unique ?vs) then list_all is_text (unique ?vs) else True"
    by (simp add: unmixed_def list_ex_iff list_all_iff split: if_splits)
  from py_sorted_unmixed [OF this] assms(1) show ?thesis
    by (simp add: sorted_unique_def getitem_def)
qed

lemma sorted_unique_mixed:
  assumes "col \<in> set (columns df)" "\<not> unmixed df col"
  shows "sorted_unique s df col = Inl TypeError"
proof -
  let ?vs = "map (\<lambda>r. cell_of r col) (rows df)"
  from assms(2) have "\<not> (if list_ex is_text (unique ?vs) then list_all is_text (unique ?vs) else True)"
    by (simp add: unmixed_def list_ex_iff list_all_iff split: if_splits)
  from py_sorted_mixed [OF this] assms(1) show ?thesis
    by (simp add: sorted_unique_def getitem_def)
qed

lemma py_int_Inr: "py_int c = Inr n \<Longrightarrow> c \<noteq> Null"
  by (cases c) auto

lemma generateSummaryStatistics_Inr:
  assumes "generateSummaryStatistics s = (Inr sm, s')"
  shows "\<exists>df. data s = Some df \<and> numbers (year_column df) \<noteq> []
           \<and> summary_raw_row_count sm = raw_row_count s
           \<and> summary_cleaned_row_count sm = length (rows df)
           \<and> rows_removed sm = int (raw_row_count s) - int (length (rows df))"
  using assms
  by (auto simp: generateSummaryStatistics_def Let_def getitem_def column_min_def year_column_def
      split: option.splits sum.splits if_splits dest: py_int_Inr)

lemma generateSummaryStatistics_empty:
  assumes "data s = Some df" "''year'' \<in> set (columns df)" "numeric df" "numbers (year_column df) = []"
  shows "fst (generateSummaryStatistics s) = Inl TypeError"
  using assms numeric_no_text [of df]
  by (simp add: generateSummaryStatistics_def Let_def getitem_def column_min_def year_column_def)

lemma generateSummaryStatistics_total:
  assumes d: "data s = Some df" and y: "''year'' \<in> set (columns df)"
    and e: "''exchange_value'' \<in> set (columns df)" and n: "numeric df"
    and ne: "numbers (year_column df) \<noteq> []"
  shows "\<exists>lo hi t. fst (generateSummaryStatistics s) =
           fst (case sorted_unique (log_info ''Generating summary statistics '' [] s) df ''island'' of
                  Inl e \<Rightarrow> (Inl e, s)
                | Inr islands \<Rightarrow>
                    (case sorted_unique (log_info ''Generating summary statistics '' [] s) df ''county'' of
                       Inl e \<Rightarrow> (Inl e, s)
                     | Inr counties \<Rightarrow>
                         (case sorted_unique (log_info ''Generating summary statistics '' [] s) df
                                 ''species_group'' of
                            Inl e \<Rightarrow> (Inl e, s)
                          | Inr species_groups \<Rightarrow>
                              (case sorted_unique (log_info ''Generating summary statistics '' [] s) df
                                      ''ecosystem_type'' of
                                 Inl e \<Rightarrow> (Inl e, s)
                               | Inr ecosystem_types \<Rightarrow>
                                   (Inr \<lparr>data_type = ''non_commercial'',
                                         summary_raw_row_count = raw_row_count s,
                                         summary_cleaned_row_count = length (rows df),
                                         rows_removed = int (raw_row_count s) - int (length (rows df)),
                                         min_year = lo, max_year = hi, total_exchange_value = t,
                                         unique_islands = islands, unique_counties = counties,
                                         unique_species_groups = species_groups,
                                         unique_ecosystem_types = ecosystem_types\<rparr>, s)))))"
  using assms numeric_no_text [of df]
  by (simp add: generateSummaryStatistics_def Let_def getitem_def column_min_def column_max_def
      column_sum_def year_column_def split: sum.splits)

lemma generateSummaryStatistics_ok:
  assumes d: "data s = Some df" and c: "set required_columns \<subseteq> set (columns df)"
    and n: "numeric df" and sm: "summarisable df"
  shows "\<exists>sm. fst (generateSummaryStatistics s) = Inr sm"
proof -
  let ?s = "log_info ''Generating summary statistics '' [] s"
  from c have cols: "''year'' \<in> set (columns df)" "''exchange_value'' \<in> set (columns df)"
    "''island'' \<in> set (columns df)" "''county'' \<in> set (columns df)"
    "''species_group'' \<in> set (columns df)" "''ecosystem_type'' \<in> set (columns df)"
    by (auto simp: required_columns_def)
  from sm have ne: "numbers (year_column df) \<noteq> []" and u: "unmixed df ''island''" "unmixed df ''county''"
    "unmixed df ''species_group''" "unmixed df ''ecosystem_type''"
    by (simp_all add: summarisable_def)
  from sorted_unique_unmixed [OF cols(3) u(1)] obtain l1 where 1: "sorted_unique ?s df ''island'' = Inr l1" by blast
  from sorted_unique_unmixed [OF cols(4) u(2)] obtain l2 where 2: "sorted_unique ?s df ''county'' = Inr l2" by blast
  from sorted_unique_unmixed [OF cols(5) u(3)] obtain l3 where 3: "sorted_unique ?s df ''species_group'' = Inr l3" by blast
  from sorted_unique_unmixed [OF cols(6) u(4)] obtain l4 where 4: "sorted_unique ?s df ''ecosystem_type'' = Inr l4" by blast
  from generateSummaryStatistics_total [OF d cols(1,2) n ne] 1 2 3 4 show ?thesis by auto
qed

lemma generateSummaryStatistics_fails:
  assumes d: "data s = Some df" and c: "set required_columns \<subseteq> set (columns df)"
    and n: "numeric df" and sm: "\<not> summarisable df"
  shows "fst (generateSummaryStatistics s) = Inl TypeError"
proof (cases "numbers (year_column df) = []")
  case True
  from c have "''year'' \<in> set (columns df)" by (auto simp: required_columns_def)
  from generateSummaryStatistics_empty [OF d this n True] show ?thesis .
next
  case False
  let ?s = "log_info ''Generating summary statistics '' [] s"
  from c have cols: "''year'' \<in> set (columns df)" "''exchange_value'' \<in> set (columns df)"
    "''island'' \<in> set (columns df)" "''county'' \<in> set (columns df)"
    "''species_group'' \<in> set (columns df)" "''ecosystem_type'' \<in> set (columns df)"
    by (auto simp: required_columns_def)
  note m = sorted_unique_mixed [of _ df ?s] sorted_unique_unmixed [of _ df ?s]
  from generateSummaryStatistics_total [OF d cols(1,2) n False]
  obtain lo hi t where g: "fst (generateSummaryStatistics s) =
           fst (case sorted_unique ?s df ''island'' of
                  Inl e \<Rightarrow> (Inl e, s)
                | Inr islands \<Rightarrow>
                    (case sorted_unique ?s df ''county'' of
                       Inl e \<Rightarrow> (Inl e, s)
                     | Inr counties \<Rightarrow>
                         (case sorted_unique ?s df ''species_group'' of
                            Inl e \<Rightarrow> (Inl e, s)
                          | Inr species_groups \<Rightarrow>
                              (case sorted_unique ?s df ''ecosystem_type'' of
                                 Inl e \<Rightarrow> (Inl e, s)
                               | Inr ecosystem_types \<Rightarrow>
                                   (Inr \<lparr>data_type = ''non_commercial'',
                                         summary_raw_row_count = raw_row_count s,
                                         summary_cleaned_row_count = length (rows df),
                                         rows_removed = int (raw_row_count s) - int (length (rows df)),
                                         min_year = lo, max_year = hi, total_exchange_value = t,
                                         unique_islands = islands, unique_counties = counties,
                                         unique_species_groups = species_groups,
                                         unique_ecosystem_types = ecosystem_types\<rparr>, s)))))"
    by blast
  show ?thesis
  proof (cases "unmixed df ''island''")
    case False
    with g sorted_unique_mixed [OF cols(3), of ?s] show ?thesis by simp
  next
    case i: True
    from sorted_unique_unmixed [OF cols(3) i] obtain l1 where 1: "sorted_unique ?s df ''island'' = Inr l1" by blast
    show ?thesis
    proof (cases "unmixed df ''county''")
      case False
      with g 1 sorted_unique_mixed [OF cols(4), of ?s] show ?thesis by simp
    next
      case c: True
      from sorted_unique_unmixed [OF cols(4) c] obtain l2 where 2: "sorted_unique ?s df ''county'' = Inr l2" by blast
      show ?thesis
      proof (cases "unmixed df ''species_group''")
        case False
        with g 1 2 sorted_unique_mixed [OF cols(5), of ?s] show ?thesis by simp
      next
        case sp: True
        from sorted_unique_unmixed [OF cols(5) sp] obtain l3 where 3: "sorted_unique ?s df ''species_group'' = Inr l3" by blast
        from sm \<open>numbers (year_column df) \<noteq> []\<close> i c sp have "\<not> unmixed df ''ecosystem_type''"
          by (simp add: summarisable_def)
        with g 1 2 3 sorted_unique_mixed [OF cols(6), of ?s] show ?thesis by simp
      qed
    qed
  qed
qed

lemma and_then_Inr: "m s = (Inr a, s1) \<Longrightarrow> and_then m f s = f a s1"
  by (simp add: and_then_def)

lemma and_then_Inl: "m s = (Inl e, s1) \<Longrightarrow> and_then m f s = (Inl e, s1)"
  by (simp add: and_then_def)

lemma columns_coerce [simp]: "columns (coerce parse df) = columns df"
  by (simp add: coerce_def)

lemma columns_select_rows [simp]: "columns (select_rows keep df) = columns df"
  by (simp add: select_rows_def)

lemma columns_without_aggregates [simp]: "columns (without_aggregates ra df) = columns df"
  by (simp add: without_aggregates_def)

lemma required_in_without_display:
  "c \<in> set required_columns \<Longrightarrow> c \<in> set (columns df) \<Longrightarrow> c \<in> set (columns (without_display rd df))"
  by (auto simp: without_display_def drop_columns_def required_columns_def display_columns_def)

lemma numeric_without_aggregates: "numeric df \<Longrightarrow> numeric (without_aggregates ra df)"
  by (simp add: without_aggregates_def numeric_select_rows)

lemma numeric_without_display: "numeric df \<Longrightarrow> numeric (without_display rd df)"
  by (auto simp: without_display_def display_columns_def intro!: numeric_drop_columns)

lemma numeric_clean: "numeric (clean parse ra rd df)"
  by (simp add: clean_def numeric_without_display numeric_without_aggregates numeric_select_rows numeric_coerce)

lemma validateVocabulary_run:
  assumes "data s = Some df" "c \<in> set (columns df)"
  shows "\<exists>s'. validateVocabulary a c ex b g s = (Inr (), s') \<and> data s' = data s \<and> world s' = world s"
proof -
  from validateVocabulary_ok [OF assms] obtain s' where "validateVocabulary a c ex b g s = (Inr (), s')"
    by blast
  with validateVocabulary_frame [OF this] show ?thesis by simp
qed

lemma validators_run:
  assumes "data s = Some df"
  shows "''ecosystem_type'' \<in> set (columns df) \<Longrightarrow>
           \<exists>s'. validateEcosystemTypes s = (Inr (), s') \<and> data s' = data s \<and> world s' = world s"
    and "''species_group'' \<in> set (columns df) \<Longrightarrow>
           \<exists>s'. validateSpeciesGroups s = (Inr (), s') \<and> data s' = data s \<and> world s' = world s"
    and "''island'' \<in> set (columns df) \<Longrightarrow>
           \<exists>s'. validateIslands s = (Inr (), s') \<and> data s' = data s \<and> world s' = world s"
    and "''county'' \<in> set (columns df) \<Longrightarrow>
           \<exists>s'. validateCounties s = (Inr (), s') \<and> data s' = data s \<and> world s' = world s"
  unfolding validateEcosystemTypes_def validateSpeciesGroups_def validateIslands_def validateCounties_def
  by (rule validateVocabulary_run [OF assms], assumption)+

lemma world_eq:
  "world s' = world s \<longleftrightarrow>
     input_dir s' = input_dir s \<and> output_dir_path s' = output_dir_path s
     \<and> output_dir s' = output_dir s \<and> today s' = today s
     \<and> raw_row_count s' = raw_row_count s \<and> cleaned_row_count s' = cleaned_row_count s"
  by (auto simp: world_def)

lemma finishPipeline_state:
  "finishPipeline f sm s = (r, s') \<Longrightarrow> r = Inr (True, Some f, Some sm) \<and> data s' = data s \<and> world s' = world s"
  by (auto simp: finishPipeline_def)

lemma runStages_run:
  assumes d: "data s = Some df" and req: "set required_columns \<subseteq> set (columns df)"
    and w: "years_whole parse df"
  shows "\<exists>r s'. runStages parse ra rd s = (r, s')
           \<and> data s' = Some (clean parse ra rd df)
           \<and> output_dir s' = write_file (output_name (today s)) (clean parse ra rd df) (output_dir s)
           \<and> cleaned_row_count s' = length (rows (clean parse ra rd df))
           \<and> raw_row_count s' = raw_row_count s \<and> today s' = today s \<and> input_dir s' = input_dir s
           \<and> output_dir_path s' = output_dir_path s
           \<and> (if summarisable (clean parse ra rd df)
               then \<exists>sm. r = Inr (True, Some (output_path s), Some sm)
                      \<and> summary_raw_row_count sm = raw_row_count s
                      \<and> summary_cleaned_row_count sm = length (rows (clean parse ra rd df))
                      \<and> rows_removed sm = int (raw_row_count s) - int (length (rows (clean parse ra rd df)))
               else r = Inl TypeError)"
proof -
  let ?c = "coerce parse df"
  let ?n = "select_rows notna_exchange_value ?c"
  let ?a = "without_aggregates ra ?n"
  let ?f = "clean parse ra rd df"
  from req have cols: "''year'' \<in> set (columns df)" "''exchange_value'' \<in> set (columns df)"
    "''ecosystem_type'' \<in> set (columns df)" "''species_group'' \<in> set (columns df)"
    "''island'' \<in> set (columns df)" "''county'' \<in> set (columns df)"
    by (auto simp: required_columns_def)
  from validateDataTypes_ok [OF d cols(1) cols(2) w]
  obtain s1 where 1: "validateDataTypes parse s = (Inr (), s1)" by blast
  from validateDataTypes_Inr [OF 1] d have d1: "data s1 = Some ?c" by auto
  from validateDataTypes_frame [OF 1] have w1: "world s1 = world s" .
  from validateDataRanges_ok [OF d1 _ _ numeric_coerce] cols
  obtain s2 where 2: "validateDataRanges s1 = (Inr True, s2)" by auto
  from validateDataRanges_frame [OF 2] d1 w1 have d2: "data s2 = Some ?c" and w2: "world s2 = world s"
    by auto
  have c1: "''ecosystem_type'' \<in> set (columns ?c)" "''species_group'' \<in> set (columns ?c)"
    "''island'' \<in> set (columns ?c)" "''county'' \<in> set (columns ?c)"
    using cols by simp_all
  from validators_run(1) [OF d2 c1(1)] d2 w2
  obtain s3 where 3: "validateEcosystemTypes s2 = (Inr (), s3)"
    and d3: "data s3 = Some ?c" and w3: "world s3 = world s" by auto
  from validators_run(2) [OF d3 c1(2)] d3 w3
  obtain s4 where 4: "validateSpeciesGroups s3 = (Inr (), s4)"
    and d4: "data s4 = Some ?c" and w4: "world s4 = world s" by auto
  from validators_run(3) [OF d4 c1(3)] d4 w4
  obtain s5 where 5: "validateIslands s4 = (Inr (), s5)"
    and d5: "data s5 = Some ?c" and w5: "world s5 = world s" by auto
  from validators_run(4) [OF d5 c1(4)] d5 w5
  obtain s6 where 6: "validateCounties s5 = (Inr (), s6)"
    and d6: "data s6 = Some ?c" and w6: "world s6 = world s" by auto
  from removeNullValues_ok [OF d6] cols
  obtain s7 where 7: "removeNullValues s6 = (Inr (), s7)" and d7: "data s7 = Some ?n" by auto
  from removeNullValues_frame [OF 7] w6 have w7: "world s7 = world s" by simp
  from removeAggregateRows_ok [OF d7, of ra] cols
  obtain s8 where 8: "removeAggregateRows ra s7 = (Inr (), s8)" and d8: "data s8 = Some ?a" by auto
  from removeAggregateRows_frame [OF 8] w7 have w8: "world s8 = world s" by simp
  from removeDisplayColumns_ok [OF d8, of rd]
  obtain s9 where 9: "removeDisplayColumns rd s8 = (Inr (), s9)" and d9: "data s9 = Some ?f"
    by (auto simp: clean_def)
  from removeDisplayColumns_frame [OF 9] w8 have w9: "world s9 = world s" by simp
  from exportCleanedData_Some [OF d9]
  obtain s10 where 10: "exportCleanedData s9 = (Inr (output_path s9), s10)"
    and d10: "data s10 = Some ?f"
    and o10: "output_dir s10 = write_file (output_name (today s9)) ?f (output_dir s9)"
    and c10: "cleaned_row_count s10 = length (rows ?f)" "raw_row_count s10 = raw_row_count s9"
      "today s10 = today s9" "input_dir s10 = input_dir s9" "output_dir_path s10 = output_dir_path s9"
    by blast
  from w9 have e9: "today s9 = today s" "output_dir s9 = output_dir s" "raw_row_count s9 = raw_row_count s"
    "input_dir s9 = input_dir s" "output_dir_path s9 = output_dir_path s"
    by (simp_all add: world_eq)
  then have p9: "output_path s9 = output_path s" by (simp add: output_path_def)
  have ycol: "''year'' \<in> set (columns ?f)"
    using cols by (auto simp: clean_def required_columns_def intro!: required_in_without_display)
  have rcol: "set required_columns \<subseteq> set (columns ?f)"
    using req by (auto simp: clean_def intro!: required_in_without_display)
  obtain r11 s11 where 11: "generateSummaryStatistics s10 = (r11, s11)" by (cases "generateSummaryStatistics s10")
  from generateSummaryStatistics_state [OF 11] have s11: "s11 = log_info ''Generating summary statistics '' [] s10" .
  have run: "runStages parse ra rd s =
               (case r11 of Inl e \<Rightarrow> (Inl e, s11) | Inr sm \<Rightarrow> finishPipeline (output_path s) sm s11)"
    by (simp add: runStages_def and_then_def 1 2 3 4 5 6 7 8 9 10 11 e9 p9 split: sum.splits)
  show ?thesis
  proof (cases "summarisable ?f")
    case False
    from generateSummaryStatistics_fails [OF d10 rcol numeric_clean False] 11
    have "r11 = Inl TypeError" by simp
    with run have "runStages parse ra rd s = (Inl TypeError, s11)" by simp
    moreover have "data s11 = Some ?f" "output_dir s11 = write_file (output_name (today s)) ?f (output_dir s)"
      "cleaned_row_count s11 = length (rows ?f)" "raw_row_count s11 = raw_row_count s" "today s11 = today s"
      "input_dir s11 = input_dir s" "output_dir_path s11 = output_dir_path s"
      using d10 o10 c10 e9 by (simp_all add: s11)
    ultimately show ?thesis using False by simp
  next
    case True
    from generateSummaryStatistics_ok [OF d10 rcol numeric_clean True] 11
    obtain sm where sm: "r11 = Inr sm" by auto
    from generateSummaryStatistics_Inr [OF 11 [unfolded sm]] d10 c10 e9
    have smf: "summary_raw_row_count sm = raw_row_count s"
      "summary_cleaned_row_count sm = length (rows ?f)"
      "rows_removed sm = int (raw_row_count s) - int (length (rows ?f))"
      by auto
    obtain r12 s12 where 12: "finishPipeline (output_path s) sm s11 = (r12, s12)"
      by (cases "finishPipeline (output_path s) sm s11")
    from finishPipeline_state [OF 12]
    have f12: "r12 = Inr (True, Some (output_path s), Some sm)" "data s12 = data s11" "world s12 = world s11"
      by auto
    from run sm 12 have "runStages parse ra rd s = (r12, s12)" by simp
    moreover have "data s12 = Some ?f" "output_dir s12 = write_file (output_name (today s)) ?f (output_dir s)"
      "cleaned_row_count s12 = length (rows ?f)" "raw_row_count s12 = raw_row_count s" "today s12 = today s"
      "input_dir s12 = input_dir s" "output_dir_path s12 = output_dir_path s"
      using f12 d10 o10 c10 e9 by (simp_all add: s11 world_eq)
    ultimately show ?thesis using True f12 smf by simp
  qed
qed

lemma loadData_none:
  assumes "noncomm_files (input_dir s) = [] \<or> (\<exists>name rest. noncomm_files (input_dir s) = (name, None) # rest)"
  shows "\<exists>s'. loadData s = (False, s') \<and> data s' = data s \<and> world s' = world s"
  using assms by (auto simp: loadData_def Let_def)

lemma loadData_some:
  assumes "noncomm_files (input_dir s) = (name, Some df) # rest"
  shows "\<exists>s'. loadData s = (True, s') \<and> data s' = Some df \<and> raw_row_count s' = length (rows df)
           \<and> output_dir s' = output_dir s \<and> today s' = today s \<and> input_dir s' = input_dir s
           \<and> output_dir_path s' = output_dir_path s"
  using assms by (simp add: loadData_def Let_def log_info_def)

lemma validateSchema_Some:
  assumes "data s = Some df"
  shows "\<exists>s'. validateSchema s = (Inr (set required_columns \<subseteq> set (columns df)), s')
           \<and> data s' = data s \<and> world s' = world s"
proof -
  have "filter (\<lambda>col. col \<notin> set (columns df)) required_columns = [] \<longleftrightarrow>
          set required_columns \<subseteq> set (columns df)"
    by (auto simp: filter_empty_conv)
  with assms show ?thesis
    by (auto simp: validateSchema_def Let_def)
qed

lemma runCleaningPipeline_load_failure:
  assumes "noncomm_files (input_dir s) = [] \<or> (\<exists>name rest. noncomm_files (input_dir s) = (name, None) # rest)"
  shows "\<exists>s'. runCleaningPipeline parse ra rd s = (Inr (False, None, None), s')
           \<and> data s' = data s \<and> world s' = world s"
proof -
  let ?s = "log_info ''NON COMMERCIAL FISHERIES DATA CLEANING PIPELINE'' [] s"
  from assms have "noncomm_files (input_dir ?s) = [] \<or> (\<exists>name rest. noncomm_files (input_dir ?s) = (name, None) # rest)"
    by simp
  from loadData_none [OF this] obtain s1 where "loadData ?s = (False, s1)" "data s1 = data s" "world s1 = world s"
    by auto
  then show ?thesis by (simp add: runCleaningPipeline_def Let_def)
qed

lemma runCleaningPipeline_schema_failure:
  assumes "noncomm_files (input_dir s) = (name, Some df) # rest"
    and "\<not> set required_columns \<subseteq> set (columns df)"
  shows "\<exists>s'. runCleaningPipeline parse ra rd s = (Inr (False, None, None), s')
           \<and> data s' = Some df \<and> output_dir s' = output_dir s \<and> raw_row_count s' = length (rows df)
           \<and> cleaned_row_count s' = cleaned_row_count s"
proof -
  let ?s = "log_info ''NON COMMERCIAL FISHERIES DATA CLEANING PIPELINE'' [] s"
  from assms have "noncomm_files (input_dir ?s) = (name, Some df) # rest" by simp
  from loadData_some [OF this] obtain s1 where 1: "loadData ?s = (True, s1)" "data s1 = Some df"
    "raw_row_count s1 = length (rows df)" "output_dir s1 = output_dir s"
    by auto
  from 1 have c1: "cleaned_row_count s1 = cleaned_row_count s"
    using \<open>noncomm_files (input_dir ?s) = (name, Some df) # rest\<close>
    by (auto simp: loadData_def Let_def log_info_def)
  from validateSchema_Some [OF 1(2)] assms(2)
  obtain s2 where 2: "validateSchema s1 = (Inr False, s2)" "data s2 = data s1" "world s2 = world s1"
    by auto
  with 1 c1 show ?thesis by (simp add: runCleaningPipeline_def Let_def world_eq)
qed

lemma runCleaningPipeline_stages:
  assumes "noncomm_files (input_dir s) = (name, Some df) # rest"
    and "set required_columns \<subseteq> set (columns df)"
  shows "\<exists>s2. runCleaningPipeline parse ra rd s = runStages parse ra rd s2
           \<and> data s2 = Some df \<and> raw_row_count s2 = length (rows df)
           \<and> output_dir s2 = output_dir s \<and> today s2 = today s \<and> input_dir s2 = input_dir s
           \<and> output_dir_path s2 = output_dir_path s"
proof -
  let ?s = "log_info ''NON COMMERCIAL FISHERIES DATA CLEANING PIPELINE'' [] s"
  from assms have "noncomm_files (input_dir ?s) = (name, Some df) # rest" by simp
  from loadData_some [OF this] obtain s1 where 1: "loadData ?s = (True, s1)" "data s1 = Some df"
    "raw_row_count s1 = length (rows df)" "output_dir s1 = output_dir s" "today s1 = today s"
    "input_dir s1 = input_dir s" "output_dir_path s1 = output_dir_path s"
    by auto
  from validateSchema_Some [OF 1(2)] assms(2)
  obtain s2 where 2: "validateSchema s1 = (Inr True, s2)" "data s2 = data s1" "world s2 = world s1"
    by auto
  have "runCleaningPipeline parse ra rd s = runStages parse ra rd s2"
    using 1 2 by (simp add: runCleaningPipeline_def Let_def)
  with 1 2 show ?thesis by (auto simp: world_eq)
qed

lemma runStages_not_whole:
  assumes "data s = Some df" "''year'' \<in> set (columns df)" "\<not> years_whole parse df"
  shows "\<exists>s'. runStages parse ra rd s = (Inl TypeError, s') \<and> data s' = data s \<and> world s' = world s"
  using assms
  by (auto simp: runStages_def and_then_def validateDataTypes_def Let_def getitem_def astype_Int64_def
      years_whole_def list_all_iff)

lemma runCleaningPipeline_not_whole:
  assumes "noncomm_files (input_dir s) = (name, Some df) # rest"
    and "set required_columns \<subseteq> set (columns df)" and "\<not> years_whole parse df"
  shows "\<exists>s'. runCleaningPipeline parse ra rd s = (Inl TypeError, s')
           \<and> data s' = Some df \<and> output_dir s' = output_dir s"
proof -
  from runCleaningPipeline_stages [OF assms(1,2), of parse ra rd]
  obtain s2 where s2: "runCleaningPipeline parse ra rd s = runStages parse ra rd s2" "data s2 = Some df"
    "output_dir s2 = output_dir s"
    by blast
  from assms(2) have y: "''year'' \<in> set (columns df)" by (auto simp: required_columns_def)
  from runStages_not_whole [OF s2(2) y assms(3), of ra rd] s2 show ?thesis
    by (auto simp: world_eq)
qed

lemma set_cell_absent: "c \<notin> fst ` set r \<Longrightarrow> set_cell c v r = r"
  by (induction r) (auto simp: set_cell_def)

lemma set_cell_twice: "set_cell c v (set_cell c v' r) = set_cell c v r"
  by (induction r) (auto simp: set_cell_def)

lemma set_cell_commute: "c \<noteq> c' \<Longrightarrow> set_cell c v (set_cell c' v' r) = set_cell c' v' (set_cell c v r)"
  by (induction r) (auto simp: set_cell_def)

lemma cell_of_coerce_row:
  "cell_of (coerce_row parse r) ''year'' = (if ''year'' \<in> fst ` set r then to_numeric parse (cell_of r ''year'') else Null)"
  "cell_of (coerce_row parse r) ''exchange_value'' =
     (if ''exchange_value'' \<in> fst ` set r then to_numeric parse (cell_of r ''exchange_value'') else Null)"
  "c \<noteq> ''year'' \<Longrightarrow> c \<noteq> ''exchange_value'' \<Longrightarrow> cell_of (coerce_row parse r) c = cell_of r c"
  by (simp_all add: coerce_row_def cell_of_set_cell_same cell_of_set_cell_other)

lemma coerce_row_idem: "coerce_row parse (coerce_row parse r) = coerce_row parse r"
proof -
  let ?y = "to_numeric parse (cell_of r ''year'')"
  let ?e = "to_numeric parse (cell_of r ''exchange_value'')"
  have y: "set_cell ''year'' (to_numeric parse (cell_of (coerce_row parse r) ''year'')) (coerce_row parse r)
             = coerce_row parse r"
  proof (cases "''year'' \<in> fst ` set r")
    case True
    then show ?thesis
      by (simp add: cell_of_coerce_row to_numeric_idem)
         (simp add: coerce_row_def set_cell_commute [of "''year''" "''exchange_value''"] set_cell_twice)
  next
    case False
    then show ?thesis by (simp add: set_cell_absent coerce_row_def)
  qed
  have e: "set_cell ''exchange_value'' (to_numeric parse (cell_of (coerce_row parse r) ''exchange_value''))
             (coerce_row parse r) = coerce_row parse r"
  proof (cases "''exchange_value'' \<in> fst ` set r")
    case True
    then show ?thesis
      by (simp add: cell_of_coerce_row to_numeric_idem) (simp add: coerce_row_def set_cell_twice)
  next
    case False
    then show ?thesis by (simp add: set_cell_absent coerce_row_def)
  qed
  have "coerce_row parse (coerce_row parse r) =
          set_cell ''exchange_value'' (to_numeric parse (cell_of (coerce_row parse r) ''exchange_value''))
            (set_cell ''year'' (to_numeric parse (cell_of (coerce_row parse r) ''year'')) (coerce_row parse r))"
    by (simp add: coerce_row_def [of parse "coerce_row parse r"])
  also have "\<dots> = coerce_row parse r" by (simp only: y e)
  finally show ?thesis .
qed

lemma coerce_idem: "coerce parse (coerce parse df) = coerce parse df"
  by (simp add: coerce_def coerce_row_idem)

lemma years_whole_coerce: "years_whole parse df \<Longrightarrow> years_whole parse (coerce parse df)"
  by (auto simp: years_whole_def coerce_def list_all_iff cell_of_coerce_row to_numeric_idem)

lemma validateDataTypes_log:
  assumes "validateDataTypes parse s = (Inr u, s')" "data s = Some df"
  shows "logging s' = logging s @ type_log (coerce parse df)"
proof -
  from validateDataTypes_Inr [OF assms(1)] assms(2)
  have c: "''year'' \<in> set (columns df)" "''exchange_value'' \<in> set (columns df)" "years_whole parse df"
    by auto
  then have w: "list_all whole (map (to_numeric parse) (map (\<lambda>r. cell_of r ''year'') (rows df)))"
    by (simp add: years_whole_def list_all_iff)
  show ?thesis
    using assms c w coerce_twice [of df parse]
    by (auto simp: validateDataTypes_def Let_def getitem_def astype_Int64_def o_def type_log_def
        log_info_def log_warning_def)
qed

lemma runCleaningPipeline_success:
  assumes l: "noncomm_files (input_dir s) = (name, Some df) # rest"
    and r: "runCleaningPipeline parse ra rd s = (Inr (True, f, sm), s')"
  shows "set required_columns \<subseteq> set (columns df) \<and> years_whole parse df
           \<and> numbers (year_column (clean parse ra rd df)) \<noteq> []
           \<and> summarisable (clean parse ra rd df)"
proof -
  have req: "set required_columns \<subseteq> set (columns df)"
  proof (rule ccontr)
    assume "\<not> ?thesis"
    from runCleaningPipeline_schema_failure [OF l this, of parse ra rd] r show False by auto
  qed
  from runCleaningPipeline_stages [OF l req, of parse ra rd]
  obtain s2 where s2: "runCleaningPipeline parse ra rd s = runStages parse ra rd s2" "data s2 = Some df"
    by blast
  from req have y: "''year'' \<in> set (columns df)" by (auto simp: required_columns_def)
  have w: "years_whole parse df"
  proof (rule ccontr)
    assume "\<not> ?thesis"
    from runStages_not_whole [OF s2(2) y this, of ra rd] s2(1) r show False by auto
  qed
  have sm: "summarisable (clean parse ra rd df)"
  proof (rule ccontr)
    assume e: "\<not> ?thesis"
    from runStages_run [OF s2(2) req w, of ra rd] e s2(1) r show False by auto
  qed
  then have "numbers (year_column (clean parse ra rd df)) \<noteq> []" by (simp add: summarisable_def)
  with req w sm show ?thesis by simp
qed

lemma length_rows_without_display [simp]: "length (rows (without_display rd df)) = length (rows df)"
  by (simp add: without_display_def drop_columns_def)

lemma length_rows_clean:
  "int (length (rows df)) - int (length (rows (clean parse ra rd df))) =
     int (length (filter (\<lambda>r. \<not> notna_exchange_value r) (rows (coerce parse df))))
     + (if ra then int (length (filter is_aggregate (filter notna_exchange_value (rows (coerce parse df)))))
        else 0)"
proof -
  let ?c = "rows (coerce parse df)"
  have 1: "length ?c = length (rows df)" by (simp add: coerce_def)
  have 2: "length (filter notna_exchange_value ?c) + length (filter (\<lambda>r. \<not> notna_exchange_value r) ?c) = length ?c"
    by (rule sum_length_filter_compl)
  have 3: "length (filter (\<lambda>r. \<not> is_aggregate r) (filter notna_exchange_value ?c))
            + length (filter is_aggregate (filter notna_exchange_value ?c))
           = length (filter notna_exchange_value ?c)"
    using sum_length_filter_compl [of "\<lambda>r. \<not> is_aggregate r" "filter notna_exchange_value ?c"] by simp
  show ?thesis
    using 1 2 3 by (simp add: clean_def without_aggregates_def select_rows_def)
qed

lemma is_aggregate_coerce_row [simp]: "is_aggregate (coerce_row parse r) = is_aggregate r"
  by (simp add: is_aggregate_def cell_of_coerce_row)

lemma is_aggregate_cleaned_row [simp]: "is_aggregate (cleaned_row parse rd df r) = is_aggregate r"
proof -
  have "''ecosystem_type'' \<notin> set (filter (\<lambda>col. col \<in> set (columns df)) display_columns)"
    by (simp add: display_columns_def)
  from cell_of_filter_keys [OF this] show ?thesis
    by (simp add: cleaned_row_def is_aggregate_def cell_of_coerce_row)
qed

lemma rows_clean:
  "rows (clean parse ra rd df) = map (cleaned_row parse rd df) (filter (survives parse ra) (rows df))"
proof -
  have "(\<lambda>r. \<not> is_aggregate r) \<circ> coerce_row parse = (\<lambda>r. \<not> is_aggregate r)"
    by (rule ext) simp
  then show ?thesis
    by (auto simp: clean_def without_display_def without_aggregates_def select_rows_def coerce_def
        drop_columns_def cleaned_row_def [abs_def] survives_def [abs_def] filter_map o_def)
qed

lemma map_of_write_file [simp]: "map_of (write_file n df fs) n = Some df"
  by (simp add: write_file_def)

lemma runCleaningPipeline_export:
  assumes "noncomm_files (input_dir s) = (name, Some df) # rest"
    and "set required_columns \<subseteq> set (columns df)" and "years_whole parse df"
  shows "\<exists>r s'. runCleaningPipeline parse ra rd s = (r, s')
           \<and> data s' = Some (clean parse ra rd df)
           \<and> output_dir s' = write_file (output_name (today s)) (clean parse ra rd df) (output_dir s)
           \<and> cleaned_row_count s' = length (rows (clean parse ra rd df))
           \<and> raw_row_count s' = length (rows df) \<and> today s' = today s \<and> input_dir s' = input_dir s
           \<and> output_dir_path s' = output_dir_path s
           \<and> (if summarisable (clean parse ra rd df)
               then \<exists>sm. r = Inr (True, Some (output_path s), Some sm)
                      \<and> summary_raw_row_count sm = length (rows df)
                      \<and> summary_cleaned_row_count sm = length (rows (clean parse ra rd df))
                      \<and> rows_removed sm = int (length (rows df)) - int (length (rows (clean parse ra rd df)))
               else r = Inl TypeError)"
proof -
  from runCleaningPipeline_stages [OF assms(1,2), of parse ra rd]
  obtain s2 where s2: "runCleaningPipeline parse ra rd s = runStages parse ra rd s2" "data s2 = Some df"
    "raw_row_count s2 = length (rows df)" "output_dir s2 = output_dir s" "today s2 = today s"
    "input_dir s2 = input_dir s" "output_dir_path s2 = output_dir_path s"
    by blast
  then have p: "output_path s2 = output_path s" by (simp add: output_path_def)
  from runStages_run [OF s2(2) assms(2,3), of ra rd] s2 p show ?thesis by auto
qed

lemma filter_by_index: "filter P xs = map (nth xs) (filter (\<lambda>i. P (xs ! i)) [0..<length xs])"
proof -
  have "filter P (map (nth xs) [0..<length xs]) = map (nth xs) (filter (P \<circ> nth xs) [0..<length xs])"
    by (rule filter_map)
  then show ?thesis by (simp add: map_nth o_def)
qed

lemma select_rows_positions:
  "\<exists>is. sorted_wrt (<) is \<and> set is = {i. i < length (rows df) \<and> P (rows df ! i)}
         \<and> rows (select_rows P df) = map (nth (rows df)) is"
proof -
  let ?is = "filter (\<lambda>i. P (rows df ! i)) [0..<length (rows df)]"
  have 1: "sorted_wrt (<) ?is" by (rule sorted_wrt_filter) simp
  have 2: "set ?is = {i. i < length (rows df) \<and> P (rows df ! i)}" by auto
  have 3: "rows (select_rows P df) = map (nth (rows df)) ?is"
    by (simp add: select_rows_def filter_by_index [of P "rows df"])
  from 1 2 3 show ?thesis by blast
qed

lemma removeNullValues_positions:
  assumes "data s = Some df"
  shows "\<exists>out is. data (snd (removeNullValues s)) = Some out \<and> sorted_wrt (<) is
           \<and> set is = {i. i < length (rows df)
                           \<and> (''exchange_value'' \<in> set (columns df) \<longrightarrow> notna_exchange_value (rows df ! i))}
           \<and> rows out = map (nth (rows df)) is"
proof (cases "''exchange_value'' \<in> set (columns df)")
  case True
  from removeNullValues_ok [OF assms True]
  have "data (snd (removeNullValues s)) = Some (select_rows notna_exchange_value df)" by auto
  with select_rows_positions [of df notna_exchange_value] True show ?thesis by auto
next
  case False
  with assms have "data (snd (removeNullValues s)) = Some df"
    by (simp add: removeNullValues_def Let_def)
  moreover from select_rows_positions [of df "\<lambda>r. True"]
  obtain "is" where "sorted_wrt (<) is" "set is = {i. i < length (rows df)}"
    "rows df = map (nth (rows df)) is"
    by (auto simp: select_rows_def)
  ultimately show ?thesis using False by auto
qed

lemma removeAggregateRows_positions:
  assumes "data s = Some df"
  shows "\<exists>out is. data (snd (removeAggregateRows ra s)) = Some out \<and> sorted_wrt (<) is
           \<and> set is = {i. i < length (rows df)
                           \<and> (ra \<and> ''ecosystem_type'' \<in> set (columns df) \<longrightarrow> \<not> is_aggregate (rows df ! i))}
           \<and> rows out = map (nth (rows df)) is"
proof (cases "ra \<and> ''ecosystem_type'' \<in> set (columns df)")
  case True
  with removeAggregateRows_ok [OF assms, of ra]
  have "data (snd (removeAggregateRows ra s)) = Some (select_rows (\<lambda>r. \<not> is_aggregate r) df)"
    by (auto simp: without_aggregates_def)
  with select_rows_positions [of df "\<lambda>r. \<not> is_aggregate r"] True show ?thesis by auto
next
  case False
  with assms have "data (snd (removeAggregateRows ra s)) = Some df"
    by (auto simp: removeAggregateRows_def Let_def)
  moreover from select_rows_positions [of df "\<lambda>r. True"]
  obtain "is" where "sorted_wrt (<) is" "set is = {i. i < length (rows df)}"
    "rows df = map (nth (rows df)) is"
    by (auto simp: select_rows_def)
  ultimately show ?thesis using False by auto
qed

lemma runCleaningPipeline_success_loaded:
  assumes "runCleaningPipeline parse ra rd s = (Inr (True, f, sm), s')"
  shows "\<exists>name df rest. noncomm_files (input_dir s) = (name, Some df) # rest"
proof (cases "noncomm_files (input_dir s)")
  case Nil
  with runCleaningPipeline_load_failure [of s parse ra rd] assms show ?thesis by auto
next
  case (Cons a list)
  obtain name parsed where a: "a = (name, parsed)" by (cases a)
  show ?thesis
  proof (cases parsed)
    case None
    with Cons a runCleaningPipeline_load_failure [of s parse ra rd] assms show ?thesis by auto
  next
    case (Some df)
    with Cons a show ?thesis by simp
  qed
qed

subsection \<open>The export\<close>

lemma map_of_write_file_other: "n \<noteq> name \<Longrightarrow> map_of (write_file name df fs) n = map_of fs n"
  by (induction fs) (auto simp: write_file_def)

lemma write_file_once: "length (filter (\<lambda>f. fst f = name) (write_file name df fs)) = 1"
  by (induction fs) (auto simp: write_file_def)

lemma exportCleanedData_replaces:
  assumes "data s = Some df"
  shows "fst (exportCleanedData s)
           = Inr (path_join (output_dir_path s) (''cleaned_noncommercial_'' @ today s @ ''.csv''))
         \<and> map_of (output_dir (snd (exportCleanedData s))) (''cleaned_noncommercial_'' @ today s @ ''.csv'')
             = Some df
         \<and> (\<forall>n. n \<noteq> ''cleaned_noncommercial_'' @ today s @ ''.csv''
                \<longrightarrow> map_of (output_dir (snd (exportCleanedData s))) n = map_of (output_dir s) n)
         \<and> length (filter (\<lambda>f. fst f = ''cleaned_noncommercial_'' @ today s @ ''.csv'')
                     (output_dir (snd (exportCleanedData s)))) = 1
         \<and> cleaned_row_count (snd (exportCleanedData s)) = length (rows df)"
proof -
  from exportCleanedData_Some [OF assms]
  obtain s' where e: "exportCleanedData s = (Inr (output_path s), s')"
    "output_dir s' = write_file (output_name (today s)) df (output_dir s)"
    "cleaned_row_count s' = length (rows df)"
    by blast
  have n: "output_name (today s) = ''cleaned_noncommercial_'' @ today s @ ''.csv''"
    by (simp add: output_name_def)
  from e show ?thesis
    unfolding n output_path_def by (simp add: map_of_write_file_other write_file_once)
qed

subsection \<open>The orchestrator\<close>

lemma runCleaningPipeline_success_shape:
  assumes "runCleaningPipeline parse ra rd s = (Inr (True, f, sm), s')"
  shows "\<exists>path summ. f = Some path \<and> sm = Some summ"
proof -
  from runCleaningPipeline_success_loaded [OF assms]
  obtain name df rest where l: "noncomm_files (input_dir s) = (name, Some df) # rest" by blast
  from runCleaningPipeline_success [OF l assms]
  have h: "set required_columns \<subseteq> set (columns df)" "years_whole parse df"
    "summarisable (clean parse ra rd df)"
    by simp_all
  from runCleaningPipeline_export [OF l h(1,2), of ra rd] h(3) assms show ?thesis by auto
qed

lemma runCommercialCleaning_returns:
  assumes "run_commercial ra rd (commercial_cleaner p) = (Inr (ok, f, sm), c)"
  shows "\<exists>p'. runCommercialCleaning run_commercial ra rd p = (Inr ok, p')
           \<and> results_commercial p' =
               Some (if ok then success_record f sm else failure_record ''Commercial data cleaning failed'')
           \<and> results_non_commercial p' = results_non_commercial p
           \<and> noncommercial_cleaner p' = noncommercial_cleaner p \<and> commercial_cleaner p' = c"
  using assms by (simp add: runCommercialCleaning_def Let_def pipeline_info_def)

lemma runNoncommercialCleaning_returns:
  assumes "runCleaningPipeline parse ra rd (noncommercial_cleaner p) = (Inr (ok, f, sm), c)"
  shows "\<exists>p'. runNoncommercialCleaning parse ra rd p = (Inr ok, p')
           \<and> results_non_commercial p' =
               Some (if ok then success_record f sm else failure_record ''Non commercial data cleaning failed'')
           \<and> results_commercial p' = results_commercial p
           \<and> commercial_cleaner p' = commercial_cleaner p \<and> noncommercial_cleaner p' = c"
  using assms by (simp add: runNoncommercialCleaning_def Let_def pipeline_info_def)

lemma runNoncommercialCleaning_raises:
  assumes "runCleaningPipeline parse ra rd (noncommercial_cleaner p) = (Inl e, c)"
  shows "\<exists>p'. runNoncommercialCleaning parse ra rd p = (Inl e, p')
           \<and> results_non_commercial p' = results_non_commercial p
           \<and> results_commercial p' = results_commercial p
           \<and> commercial_cleaner p' = commercial_cleaner p \<and> noncommercial_cleaner p' = c"
  using assms by (simp add: runNoncommercialCleaning_def Let_def pipeline_info_def)

lemma report_section_record:
  "\<exists>lines. report_section title last_lines (Some (failure_record m)) = Inr lines"
  "\<exists>lines. report_section title last_lines (Some (success_record f (Some sm))) = Inr lines"
  by (simp_all add: report_section_def failure_record_def success_record_def subscript_def)

lemma generatePipelineReport_returns:
  assumes "results_commercial p = Some (failure_record m) \<or> (\<exists>f sm. results_commercial p = Some (success_record f (Some sm)))"
    and "results_non_commercial p = Some (failure_record m') \<or> (\<exists>f sm. results_non_commercial p = Some (success_record f (Some sm)))"
  shows "\<exists>p'. generatePipelineReport p = (Inr (), p')
           \<and> results_commercial p' = results_commercial p \<and> results_non_commercial p' = results_non_commercial p
           \<and> commercial_cleaner p' = commercial_cleaner p \<and> noncommercial_cleaner p' = noncommercial_cleaner p"
proof -
  from assms(1) obtain l1 where 1:
    "report_section ''COMMERCIAL FISHERIES:'' commercial_lines (results_commercial p) = Inr l1"
    using report_section_record by metis
  from assms(2) obtain l2 where 2:
    "report_section ''NON COMMERCIAL FISHERIES:'' noncommercial_lines (results_non_commercial p) = Inr l2"
    using report_section_record by metis
  from 1 2 show ?thesis
    by (simp add: generatePipelineReport_def Let_def pipeline_info_def)
qed

lemma startPipeline_fields [simp]:
  "commercial_cleaner (startPipeline ra rd p) = commercial_cleaner p"
  "noncommercial_cleaner (startPipeline ra rd p) = noncommercial_cleaner p"
  "results_commercial (startPipeline ra rd p) = results_commercial p"
  "results_non_commercial (startPipeline ra rd p) = results_non_commercial p"
  by (simp_all add: startPipeline_def setupLogging_def pipeline_info_def)

lemma runFullPipeline_returns:
  assumes c: "run_commercial ra rd (commercial_cleaner p) = (Inr (ok1, f1, sm1), c')"
    and cs: "ok1 \<longrightarrow> sm1 \<noteq> None"
    and n: "runCleaningPipeline parse ra rd (noncommercial_cleaner p) = (Inr (ok2, f2, sm2), n')"
  shows "\<exists>p'. runFullPipeline run_commercial parse ra rd p = (Inr (ok1 \<and> ok2), p')
           \<and> commercial_cleaner p' = c' \<and> noncommercial_cleaner p' = n'
           \<and> results_commercial p' =
               Some (if ok1 then success_record f1 sm1 else failure_record ''Commercial data cleaning failed'')
           \<and> results_non_commercial p' =
               Some (if ok2 then success_record f2 sm2 else failure_record ''Non commercial data cleaning failed'')"
proof -
  let ?p = "startPipeline ra rd p"
  have c0: "run_commercial ra rd (commercial_cleaner ?p) = (Inr (ok1, f1, sm1), c')"
    using c by simp
  from runCommercialCleaning_returns [of run_commercial ra rd ?p ok1 f1 sm1 c', OF c0]
  obtain p1 where 1: "runCommercialCleaning run_commercial ra rd ?p = (Inr ok1, p1)"
    and r1: "results_commercial p1 =
               Some (if ok1 then success_record f1 sm1 else failure_record ''Commercial data cleaning failed'')"
    and k1: "noncommercial_cleaner p1 = noncommercial_cleaner p" "commercial_cleaner p1 = c'"
    by auto
  from n k1 have n1: "runCleaningPipeline parse ra rd (noncommercial_cleaner p1) = (Inr (ok2, f2, sm2), n')"
    by simp
  from runNoncommercialCleaning_returns [OF n1]
  obtain p2 where 2: "runNoncommercialCleaning parse ra rd p1 = (Inr ok2, p2)"
    and r2: "results_non_commercial p2 =
               Some (if ok2 then success_record f2 sm2 else failure_record ''Non commercial data cleaning failed'')"
      "results_commercial p2 = results_commercial p1"
    and k2: "commercial_cleaner p2 = commercial_cleaner p1" "noncommercial_cleaner p2 = n'"
    by blast
  have s2: "ok2 \<longrightarrow> sm2 \<noteq> None"
    using runCleaningPipeline_success_shape [of parse ra rd "noncommercial_cleaner p" f2 sm2 n'] n by auto
  have a1: "results_commercial p2 = Some (failure_record ''Commercial data cleaning failed'')
              \<or> (\<exists>f sm. results_commercial p2 = Some (success_record f (Some sm)))"
    using r1 r2(2) cs by (cases ok1) auto
  have a2: "results_non_commercial p2 = Some (failure_record ''Non commercial data cleaning failed'')
              \<or> (\<exists>f sm. results_non_commercial p2 = Some (success_record f (Some sm)))"
    using r2(1) s2 by (cases ok2) auto
  from generatePipelineReport_returns [OF a1 a2]
  obtain p3 where 3: "generatePipelineReport p2 = (Inr (), p3)"
    and r3: "results_commercial p3 = results_commercial p2" "results_non_commercial p3 = results_non_commercial p2"
    and k3: "commercial_cleaner p3 = commercial_cleaner p2" "noncommercial_cleaner p3 = noncommercial_cleaner p2"
    by blast
  show ?thesis
    using 1 2 3 r1 r2 r3 k1 k2 k3
    by (simp add: runFullPipeline_def Let_def pipeline_info_def)
qed

lemma generateCombinedSummary_failure_record:
  assumes "results_commercial p = Some (success_record f sm)"
    and "results_non_commercial p = Some (failure_record m)"
  shows "fst (generateCombinedSummary p) = Inl (KeyError ''summary'')"
  using assms
  by (simp add: generateCombinedSummary_def Let_def pipeline_info_def summary_entry_def subscript_def
      success_record_def failure_record_def)

lemma generateCombinedSummary_commercial_failure_record:
  assumes "results_commercial p = Some (failure_record m)"
  shows "fst (generateCombinedSummary p) = Inl (KeyError ''summary'')"
  using assms
  by (simp add: generateCombinedSummary_def Let_def pipeline_info_def summary_entry_def subscript_def
      failure_record_def)

lemma generateCombinedSummary_not_run:
  assumes "results_commercial p = Some (success_record f (Some sm))"
    and "results_non_commercial p = None"
  shows "fst (generateCombinedSummary p) =
           Inr \<lparr>pipeline_timestamp = now p, commercial = PSummary sm, non_commercial = PNone, overall = None\<rparr>"
  using assms
  by (simp add: generateCombinedSummary_def Let_def pipeline_info_def summary_entry_def subscript_def
      success_record_def)

subsection \<open>The small inputs, evaluated\<close>

lemma example_files:
  "noncomm_files (input_dir example_cleaner) = (''tidied_noncomm_ev.csv'', Some example_frame) # []"
  "noncomm_files (input_dir example_null_cleaner) = (''tidied_noncomm_ev.csv'', Some example_null_frame) # []"
  "noncomm_files (input_dir example_bad_cleaner) = (''tidied_noncomm_ev.csv'', Some example_bad_frame) # []"
  by (simp_all add: noncomm_files_def example_cleaner_def example_null_cleaner_def example_bad_cleaner_def)

lemma example_required:
  "set required_columns \<subseteq> set (columns example_frame)"
  "set required_columns \<subseteq> set (columns example_null_frame)"
  by (simp_all add: example_frame_def example_null_frame_def)

lemma example_years_whole:
  "years_whole example_parse example_frame"
  "years_whole example_parse example_null_frame"
  by (simp_all add: years_whole_def example_frame_def example_null_frame_def example_row_def cell_of_def)

lemma example_big_year:
  "noncomm_files (input_dir example_big_year_cleaner)
     = (''tidied_noncomm_ev.csv'', Some example_big_year_frame) # []"
  "set required_columns \<subseteq> set (columns example_big_year_frame)"
  "\<not> years_whole example_parse example_big_year_frame"
  "output_dir example_big_year_cleaner = []"
  by (simp_all add: noncomm_files_def example_big_year_cleaner_def example_cleaner_def
      example_big_year_frame_def years_whole_def example_row_def cell_of_def)

lemma example_coerce_rows:
  "rows (coerce example_parse example_frame) =
     [example_row 2005 ''Oahu'' ''Reef'' (Num 100),
      example_row 2006 ''Oahu'' ''All Ecosystems'' (Num 250),
      example_row 2006 ''Niihau'' ''Reef'' Null]"
  by (simp add: coerce_def coerce_row_def example_frame_def example_row_def cell_of_def set_cell_def
      example_parse_def)

lemma example_clean_rows:
  "rows (clean example_parse True rd example_frame) = [example_row 2005 ''Oahu'' ''Reef'' (Num 100)]"
  "rows (clean example_parse False rd example_frame) =
     [example_row 2005 ''Oahu'' ''Reef'' (Num 100), example_row 2006 ''Oahu'' ''All Ecosystems'' (Num 250)]"
  "rows (clean example_parse ra rd example_null_frame) = []"
  by (simp_all add: clean_def without_display_def without_aggregates_def select_rows_def drop_columns_def
      coerce_def coerce_row_def example_frame_def example_null_frame_def example_row_def cell_of_def
      set_cell_def notna_exchange_value_def is_aggregate_def example_parse_def display_columns_def
      required_columns_def)

lemma example_summarisable:
  "summarisable (clean example_parse True rd example_frame)"
  "summarisable (clean example_parse False rd example_frame)"
  "\<not> summarisable (clean example_parse ra rd example_null_frame)"
  by (simp_all add: summarisable_def unmixed_def year_column_def numbers_def example_clean_rows
      example_row_def cell_of_def)

lemma example_output_path:
  "output_path example_cleaner = ''data/cleaned/cleaned_noncommercial_20260223.csv''"
  "output_path example_null_cleaner = ''data/cleaned/cleaned_noncommercial_20260223.csv''"
  "output_name (today example_cleaner) = ''cleaned_noncommercial_20260223.csv''"
  by (simp_all add: output_path_def output_name_def path_join_def example_cleaner_def
      example_null_cleaner_def)

section \<open>Properties\<close>

text \<open>
  C1. One sub-pipeline fails, the other succeeds, and generateCombinedSummary is called;
  the summary to be returned has a null entry for the failed dataset and no overall
  section. Here the commercial cleaner succeeds and no non-commercial file is found: the
  results dictionary holds a success record and a failure record, and
  generateCombinedSummary returns nothing, it raises KeyError on the failure record, which
  has no summary key.
\<close>

theorem combined_summary_raises:
  "results_commercial example_partial_failure
     = Some (success_record (Some ''data/cleaned/cleaned_commercial_20260223.csv'') (Some example_summary))
   \<and> results_non_commercial example_partial_failure
     = Some (failure_record ''Non commercial data cleaning failed'')
   \<and> fst (generateCombinedSummary example_partial_failure) = Inl (KeyError ''summary'')"
proof -
  let ?q = "example_pipeline (example_cleaner\<lparr>input_dir := []\<rparr>)"
  have c: "example_commercial True False (commercial_cleaner ?q)
             = (Inr (True, Some ''data/cleaned/cleaned_commercial_20260223.csv'', Some example_summary), ())"
    by (simp add: example_commercial_def)
  from runCommercialCleaning_returns [of example_commercial True False ?q, OF c]
  obtain p1 where 1: "runCommercialCleaning example_commercial True False ?q = (Inr True, p1)"
    and r1: "results_commercial p1
               = Some (success_record (Some ''data/cleaned/cleaned_commercial_20260223.csv'') (Some example_summary))"
    and k1: "noncommercial_cleaner p1 = noncommercial_cleaner ?q"
    by auto
  have "noncomm_files (input_dir (noncommercial_cleaner p1)) = []"
    by (simp add: k1 example_pipeline_def noncomm_files_def)
  with runCleaningPipeline_load_failure [of "noncommercial_cleaner p1" example_parse True False]
  obtain n where n: "runCleaningPipeline example_parse True False (noncommercial_cleaner p1)
                       = (Inr (False, None, None), n)"
    by auto
  from runNoncommercialCleaning_returns [OF n]
  obtain p2 where 2: "runNoncommercialCleaning example_parse True False p1 = (Inr False, p2)"
    and r2: "results_non_commercial p2 = Some (failure_record ''Non commercial data cleaning failed'')"
      "results_commercial p2 = results_commercial p1"
    by auto
  have e: "example_partial_failure = p2"
    by (simp add: example_partial_failure_def 1 2)
  from generateCombinedSummary_failure_record [of p2] r1 r2
  have "fst (generateCombinedSummary p2) = Inl (KeyError ''summary'')" by simp
  with e r1 r2 show ?thesis by simp
qed

text \<open>
  C2. A loaded table that lacks a required column makes validateSchema report failure;
  runCleaningPipeline then returns its failure result and the output directory is as it
  was, so no CSV is written. The same holds when no file is found or the file does not parse.
\<close>

theorem schema_gate:
  "(data s = Some df \<and> c \<in> set required_columns \<and> c \<notin> set (columns df)
      \<longrightarrow> fst (validateSchema s) = Inr False)
   \<and> (noncomm_files (input_dir s) = (name, Some df) # rest \<and> c \<in> set required_columns
        \<and> c \<notin> set (columns df)
      \<longrightarrow> fst (runCleaningPipeline parse ra rd s) = Inr (False, None, None)
          \<and> output_dir (snd (runCleaningPipeline parse ra rd s)) = output_dir s)
   \<and> (noncomm_files (input_dir s) = [] \<or> noncomm_files (input_dir s) = (name, None) # rest
      \<longrightarrow> fst (runCleaningPipeline parse ra rd s) = Inr (False, None, None)
          \<and> output_dir (snd (runCleaningPipeline parse ra rd s)) = output_dir s)"
proof (intro conjI impI)
  assume a: "data s = Some df \<and> c \<in> set required_columns \<and> c \<notin> set (columns df)"
  then have "\<not> set required_columns \<subseteq> set (columns df)" by auto
  with validateSchema_Some [of s df] a show "fst (validateSchema s) = Inr False" by auto
next
  assume a: "noncomm_files (input_dir s) = (name, Some df) # rest \<and> c \<in> set required_columns
        \<and> c \<notin> set (columns df)"
  then have n: "\<not> set required_columns \<subseteq> set (columns df)" by auto
  from a have l: "noncomm_files (input_dir s) = (name, Some df) # rest" by simp
  from runCleaningPipeline_schema_failure [OF l n, of parse ra rd]
  show "fst (runCleaningPipeline parse ra rd s) = Inr (False, None, None)"
    and "output_dir (snd (runCleaningPipeline parse ra rd s)) = output_dir s"
    by auto
next
  assume "noncomm_files (input_dir s) = [] \<or> noncomm_files (input_dir s) = (name, None) # rest"
  then have "noncomm_files (input_dir s) = [] \<or> (\<exists>name rest. noncomm_files (input_dir s) = (name, None) # rest)"
    by blast
  from runCleaningPipeline_load_failure [OF this, of parse ra rd]
  show "fst (runCleaningPipeline parse ra rd s) = Inr (False, None, None)"
    and "output_dir (snd (runCleaningPipeline parse ra rd s)) = output_dir s"
    by (auto simp: world_eq)
qed

theorem schema_gate_witness:
  "data (example_cleaner\<lparr>data := Some example_bad_frame\<rparr>) = Some example_bad_frame
   \<and> ''island'' \<in> set required_columns \<and> ''island'' \<notin> set (columns example_bad_frame)
   \<and> fst (validateSchema (example_cleaner\<lparr>data := Some example_bad_frame\<rparr>)) = Inr False
   \<and> noncomm_files (input_dir example_bad_cleaner) = (''tidied_noncomm_ev.csv'', Some example_bad_frame) # []
   \<and> fst (runCleaningPipeline example_parse True False example_bad_cleaner) = Inr (False, None, None)
   \<and> output_dir (snd (runCleaningPipeline example_parse True False example_bad_cleaner)) = []
   \<and> noncomm_files (input_dir (example_cleaner\<lparr>input_dir := []\<rparr>)) = []
   \<and> fst (runCleaningPipeline example_parse True False (example_cleaner\<lparr>input_dir := []\<rparr>))
       = Inr (False, None, None)
   \<and> output_dir (snd (runCleaningPipeline example_parse True False (example_cleaner\<lparr>input_dir := []\<rparr>))) = []"
proof -
  have h: "''island'' \<in> set required_columns" "''island'' \<notin> set (columns example_bad_frame)"
    by (simp_all add: required_columns_def example_bad_frame_def)
  have e: "noncomm_files (input_dir (example_cleaner\<lparr>input_dir := []\<rparr>)) = []"
    by (simp add: noncomm_files_def)
  have o: "output_dir example_bad_cleaner = []" "output_dir (example_cleaner\<lparr>input_dir := []\<rparr>) = []"
    by (simp_all add: example_bad_cleaner_def example_cleaner_def)
  show ?thesis
    using h e o example_files(3)
      schema_gate [where s = "example_cleaner\<lparr>data := Some example_bad_frame\<rparr>"
        and df = example_bad_frame and c = "''island''"]
      schema_gate [where s = example_bad_cleaner and df = example_bad_frame and c = "''island''"
        and name = "''tidied_noncomm_ev.csv''" and rest = "[]" and parse = example_parse
        and ra = True and rd = False]
      schema_gate [where s = "example_cleaner\<lparr>input_dir := []\<rparr>" and parse = example_parse
        and ra = True and rd = False]
    by simp
qed

text \<open>
  C3. After a run that returns success, the cleaned row count is at most the raw row count,
  the summary holds both, and \<open>rows_removed\<close> is their difference: the number of rows
  removeNullValues dropped (those of the coerced table with no exchange value) plus, when
  \<open>remove_aggregates\<close> is on, the number removeAggregateRows dropped (the All Ecosystems
  rows among the rest).
\<close>

theorem row_accounting:
  assumes "noncomm_files (input_dir s) = (name, Some df) # rest"
    and "runCleaningPipeline parse ra rd s = (Inr (True, f, Some sm), s')"
  shows "raw_row_count s' = length (rows df)
         \<and> cleaned_row_count s' \<le> raw_row_count s'
         \<and> summary_raw_row_count sm = raw_row_count s'
         \<and> summary_cleaned_row_count sm = cleaned_row_count s'
         \<and> rows_removed sm = int (raw_row_count s') - int (cleaned_row_count s')
         \<and> rows_removed sm =
             int (length (filter (\<lambda>r. \<not> notna_exchange_value r) (rows (coerce parse df))))
             + (if ra then int (length (filter is_aggregate
                                  (filter notna_exchange_value (rows (coerce parse df)))))
                else 0)"
proof -
  from runCleaningPipeline_success [OF assms]
  have req: "set required_columns \<subseteq> set (columns df)" and w: "years_whole parse df"
    and ok: "summarisable (clean parse ra rd df)"
    by simp_all
  from runCleaningPipeline_export [OF assms(1) req w, of ra rd] ok assms(2)
  have f: "cleaned_row_count s' = length (rows (clean parse ra rd df))" "raw_row_count s' = length (rows df)"
    "summary_raw_row_count sm = length (rows df)"
    "summary_cleaned_row_count sm = length (rows (clean parse ra rd df))"
    "rows_removed sm = int (length (rows df)) - int (length (rows (clean parse ra rd df)))"
    by auto
  have le: "length (rows (clean parse ra rd df)) \<le> length (rows df)"
  proof -
    have "length (rows (clean parse ra rd df)) \<le> length (rows (coerce parse df))"
      by (simp add: clean_def without_aggregates_def select_rows_def le_trans [OF length_filter_le length_filter_le])
    then show ?thesis by (simp add: coerce_def)
  qed
  from f le length_rows_clean [of df parse ra rd] show ?thesis by simp
qed

theorem row_accounting_witness:
  "\<exists>sm s'. noncomm_files (input_dir example_cleaner) = (''tidied_noncomm_ev.csv'', Some example_frame) # []
     \<and> runCleaningPipeline example_parse True False example_cleaner
         = (Inr (True, Some ''data/cleaned/cleaned_noncommercial_20260223.csv'', Some sm), s')
     \<and> raw_row_count s' = 3 \<and> cleaned_row_count s' = 1 \<and> rows_removed sm = 2
     \<and> length (filter (\<lambda>r. \<not> notna_exchange_value r) (rows (coerce example_parse example_frame))) = 1
     \<and> length (filter is_aggregate
                 (filter notna_exchange_value (rows (coerce example_parse example_frame)))) = 1"
proof -
  from runCleaningPipeline_export [OF example_files(1) example_required(1) example_years_whole(1), of True False]
    example_summarisable(1) [of False] example_output_path(1)
  obtain sm s' where run: "runCleaningPipeline example_parse True False example_cleaner
         = (Inr (True, Some ''data/cleaned/cleaned_noncommercial_20260223.csv'', Some sm), s')"
    by auto
  have n: "length (filter (\<lambda>r. \<not> notna_exchange_value r) (rows (coerce example_parse example_frame))) = 1"
    "length (filter is_aggregate
                 (filter notna_exchange_value (rows (coerce example_parse example_frame)))) = 1"
    by (simp_all add: example_coerce_rows example_row_def notna_exchange_value_def is_aggregate_def
        cell_of_def)
  have n3: "length (rows example_frame) = 3" by (simp add: example_frame_def)
  from row_accounting [OF example_files(1) run] n n3
  have "raw_row_count s' = 3 \<and> cleaned_row_count s' = 1 \<and> rows_removed sm = 2" by simp
  with run n example_files(1) show ?thesis by blast
qed

text \<open>
  C4. For every table that loads, a run with \<open>remove_aggregates\<close> off keeps every
  All Ecosystems row whose exchange value is not null after coercion, and a run with it on
  leaves none in the exported table. When the table has every required column and its
  years convert to 64-bit integers, the run writes its file, and in that file the
  All Ecosystems rows are: with the flag off, exactly those rows of the loaded table, each
  in its cleaned form and in the same order; with the flag on, none. Every other loaded
  table is not exported at all, whatever the flag: the output directory is as it was, and
  the frame is still the loaded table, with every row of it.
\<close>

theorem aggregate_flag:
  assumes "noncomm_files (input_dir s) = (name, Some df) # rest"
  shows "if set required_columns \<subseteq> set (columns df) \<and> years_whole parse df
         then \<exists>out. map_of (output_dir (snd (runCleaningPipeline parse ra rd s))) (output_name (today s))
                       = Some out
                \<and> data (snd (runCleaningPipeline parse ra rd s)) = Some out
                \<and> filter is_aggregate (rows out) =
                    (if ra then []
                     else map (cleaned_row parse rd df)
                            (filter (\<lambda>r. is_aggregate r \<and> notna_exchange_value (coerce_row parse r))
                               (rows df)))
         else output_dir (snd (runCleaningPipeline parse ra rd s)) = output_dir s
              \<and> data (snd (runCleaningPipeline parse ra rd s)) = Some df"
proof (cases "set required_columns \<subseteq> set (columns df)")
  case False
  from runCleaningPipeline_schema_failure [OF assms False, of parse ra rd] False
  show ?thesis by auto
next
  case req: True
  show ?thesis
  proof (cases "years_whole parse df")
    case False
    from runCleaningPipeline_not_whole [OF assms req False, of ra rd] False
    show ?thesis by auto
  next
    case True
    from runCleaningPipeline_export [OF assms req True, of ra rd]
    have o: "map_of (output_dir (snd (runCleaningPipeline parse ra rd s))) (output_name (today s))
               = Some (clean parse ra rd df)"
      "data (snd (runCleaningPipeline parse ra rd s)) = Some (clean parse ra rd df)"
      by auto
    have "(is_aggregate \<circ> cleaned_row parse rd df) = is_aggregate" by (rule ext) simp
    then have "filter is_aggregate (rows (clean parse ra rd df)) =
            (if ra then []
             else map (cleaned_row parse rd df)
                    (filter (\<lambda>r. is_aggregate r \<and> notna_exchange_value (coerce_row parse r)) (rows df)))"
      by (auto simp: rows_clean filter_map survives_def conj_commute)
    with o req True show ?thesis by simp
  qed
qed

theorem aggregate_flag_witness:
  "noncomm_files (input_dir example_cleaner) = (''tidied_noncomm_ev.csv'', Some example_frame) # []
   \<and> (\<exists>out. map_of (output_dir (snd (runCleaningPipeline example_parse False False example_cleaner)))
               ''cleaned_noncommercial_20260223.csv'' = Some out
          \<and> filter is_aggregate (rows out) = [example_row 2006 ''Oahu'' ''All Ecosystems'' (Num 250)])
   \<and> (\<exists>out. map_of (output_dir (snd (runCleaningPipeline example_parse True False example_cleaner)))
               ''cleaned_noncommercial_20260223.csv'' = Some out
          \<and> filter is_aggregate (rows out) = [])
   \<and> noncomm_files (input_dir example_big_year_cleaner)
       = (''tidied_noncomm_ev.csv'', Some example_big_year_frame) # []
   \<and> output_dir (snd (runCleaningPipeline example_parse True False example_big_year_cleaner)) = []
   \<and> data (snd (runCleaningPipeline example_parse True False example_big_year_cleaner))
       = Some example_big_year_frame"
proof -
  have r: "map (cleaned_row example_parse False example_frame)
             (filter (\<lambda>r. is_aggregate r \<and> notna_exchange_value (coerce_row example_parse r))
                (rows example_frame))
           = [example_row 2006 ''Oahu'' ''All Ecosystems'' (Num 250)]"
    by (simp add: cleaned_row_def coerce_row_def example_frame_def example_row_def cell_of_def
        set_cell_def notna_exchange_value_def is_aggregate_def example_parse_def)
  from aggregate_flag [OF example_files(1), of example_parse False False]
    example_required(1) example_years_whole(1) example_output_path(3) r
  have 1: "\<exists>out. map_of (output_dir (snd (runCleaningPipeline example_parse False False example_cleaner)))
               ''cleaned_noncommercial_20260223.csv'' = Some out
          \<and> filter is_aggregate (rows out) = [example_row 2006 ''Oahu'' ''All Ecosystems'' (Num 250)]"
    by auto
  from aggregate_flag [OF example_files(1), of example_parse True False]
    example_required(1) example_years_whole(1) example_output_path(3)
  have 2: "\<exists>out. map_of (output_dir (snd (runCleaningPipeline example_parse True False example_cleaner)))
               ''cleaned_noncommercial_20260223.csv'' = Some out
          \<and> filter is_aggregate (rows out) = []"
    by auto
  from aggregate_flag [OF example_big_year(1), of example_parse True False] example_big_year(3,4)
  have 3: "output_dir (snd (runCleaningPipeline example_parse True False example_big_year_cleaner)) = []"
    "data (snd (runCleaningPipeline example_parse True False example_big_year_cleaner))
       = Some example_big_year_frame"
    by simp_all
  from 1 2 3 example_files(1) example_big_year(1) show ?thesis by simp
qed

text \<open>
  C5. validateDataRanges and the four vocabulary validators (species groups, ecosystem
  types, islands, counties) leave the frame exactly as it was, whatever it holds, and with
  it the counters and both directories: they only add to the log.
\<close>

theorem advisory_validation_unchanged:
  "data (snd (validateDataRanges s)) = data s \<and> world (snd (validateDataRanges s)) = world s
   \<and> data (snd (validateSpeciesGroups s)) = data s \<and> world (snd (validateSpeciesGroups s)) = world s
   \<and> data (snd (validateEcosystemTypes s)) = data s \<and> world (snd (validateEcosystemTypes s)) = world s
   \<and> data (snd (validateIslands s)) = data s \<and> world (snd (validateIslands s)) = world s
   \<and> data (snd (validateCounties s)) = data s \<and> world (snd (validateCounties s)) = world s"
  using validateDataRanges_frame [OF surjective_pairing, of s]
    validateVocabulary_frame [OF surjective_pairing, of _ _ _ _ _ s]
  by (simp add: validateSpeciesGroups_def validateEcosystemTypes_def validateIslands_def validateCounties_def)

text \<open>
  C6. Each successful export writes the cleaned table to a freshly timestamped file,
  one file per run, which no later run overwrites; the description of exportCleanedData
  says the same, that each pipeline run produces a unique artifact. The file is named by
  the date alone, so two runs on one date share it. Here the cleaner is run twice on
  2026-02-23 over the same input, with \<open>remove_aggregates\<close> on and then off. Both runs
  succeed and return the same path; the first writes its one row to
  \<^verbatim>\<open>cleaned_noncommercial_20260223.csv\<close>; after the second the output directory holds that
  one name alone, with the two rows of the second run, and the file of the first run is gone.
\<close>

theorem export_same_date_overwrites:
  "(\<exists>sm. fst (runCleaningPipeline example_parse True False example_cleaner)
            = Inr (True, Some ''data/cleaned/cleaned_noncommercial_20260223.csv'', Some sm))
   \<and> (\<exists>sm. fst (runCleaningPipeline example_parse False False example_first_run)
            = Inr (True, Some ''data/cleaned/cleaned_noncommercial_20260223.csv'', Some sm))
   \<and> output_dir example_first_run
     = [(''cleaned_noncommercial_20260223.csv'', clean example_parse True False example_frame)]
   \<and> output_dir example_second_run
     = [(''cleaned_noncommercial_20260223.csv'', clean example_parse False False example_frame)]
   \<and> rows (clean example_parse True False example_frame)
     = [example_row 2005 ''Oahu'' ''Reef'' (Num 100)]
   \<and> rows (clean example_parse False False example_frame)
     = [example_row 2005 ''Oahu'' ''Reef'' (Num 100),
        example_row 2006 ''Oahu'' ''All Ecosystems'' (Num 250)]"
proof -
  have o: "output_dir example_cleaner = []" by (simp add: example_cleaner_def)
  from runCleaningPipeline_export [OF example_files(1) example_required(1) example_years_whole(1), of True False]
    example_summarisable(1) [of False] example_output_path(1,3) o
  obtain sm1 where 1: "fst (runCleaningPipeline example_parse True False example_cleaner)
            = Inr (True, Some ''data/cleaned/cleaned_noncommercial_20260223.csv'', Some sm1)"
    "output_dir example_first_run
       = write_file ''cleaned_noncommercial_20260223.csv'' (clean example_parse True False example_frame) []"
    "today example_first_run = today example_cleaner" "input_dir example_first_run = input_dir example_cleaner"
    "output_dir_path example_first_run = output_dir_path example_cleaner"
    by (auto simp: example_first_run_def)
  from 1(4) example_files(1)
  have f: "noncomm_files (input_dir example_first_run) = (''tidied_noncomm_ev.csv'', Some example_frame) # []"
    by simp
  from 1(3,5) example_output_path(1,3)
  have p: "output_path example_first_run = ''data/cleaned/cleaned_noncommercial_20260223.csv''"
    "output_name (today example_first_run) = ''cleaned_noncommercial_20260223.csv''"
    by (simp_all add: output_path_def)
  from runCleaningPipeline_export [OF f example_required(1) example_years_whole(1), of False False]
    example_summarisable(2) [of False] p
  obtain sm2 where 2: "fst (runCleaningPipeline example_parse False False example_first_run)
            = Inr (True, Some ''data/cleaned/cleaned_noncommercial_20260223.csv'', Some sm2)"
    "output_dir example_second_run
       = write_file ''cleaned_noncommercial_20260223.csv'' (clean example_parse False False example_frame)
           (output_dir example_first_run)"
    by (auto simp: example_second_run_def)
  from 1(1) have a: "\<exists>sm. fst (runCleaningPipeline example_parse True False example_cleaner)
            = Inr (True, Some ''data/cleaned/cleaned_noncommercial_20260223.csv'', Some sm)" by blast
  from 2(1) have b: "\<exists>sm. fst (runCleaningPipeline example_parse False False example_first_run)
            = Inr (True, Some ''data/cleaned/cleaned_noncommercial_20260223.csv'', Some sm)" by blast
  have c: "output_dir example_first_run
     = [(''cleaned_noncommercial_20260223.csv'', clean example_parse True False example_frame)]"
    by (simp add: 1(2) write_file_def)
  have d: "output_dir example_second_run
     = [(''cleaned_noncommercial_20260223.csv'', clean example_parse False False example_frame)]"
    by (simp add: 2(2) c write_file_def)
  from a b c d example_clean_rows(1) [of False] example_clean_rows(2) [of False] show ?thesis
    by (intro conjI)
qed

text \<open>
  C7, as amended. In every run of runFullPipeline in which each cleaner returns from
  runCleaningPipeline (a commercial success coming with its summary), both cleaners have
  run, whether or not the first failed; each outcome is recorded under its own key of the
  results dictionary, as a success record or a failure record; and the flag returned is the
  conjunction of the two success flags.
\<close>

theorem runFullPipeline_both_recorded:
  assumes "run_commercial ra rd (commercial_cleaner p) = (Inr (ok1, f1, sm1), c')"
    and "ok1 \<longrightarrow> sm1 \<noteq> None"
    and "runCleaningPipeline parse ra rd (noncommercial_cleaner p) = (Inr (ok2, f2, sm2), n')"
  shows "\<exists>p'. runFullPipeline run_commercial parse ra rd p = (Inr (ok1 \<and> ok2), p')
           \<and> commercial_cleaner p' = c' \<and> noncommercial_cleaner p' = n'
           \<and> results_commercial p' =
               Some (if ok1 then success_record f1 sm1 else failure_record ''Commercial data cleaning failed'')
           \<and> results_non_commercial p' =
               Some (if ok2 then success_record f2 sm2 else failure_record ''Non commercial data cleaning failed'')"
  using assms by (rule runFullPipeline_returns)

theorem runFullPipeline_both_recorded_witness:
  "\<exists>sm n' p'.
     example_commercial_failing True False (commercial_cleaner (example_pipeline example_cleaner))
       = (Inr (False, None, None), ())
     \<and> runCleaningPipeline example_parse True False (noncommercial_cleaner (example_pipeline example_cleaner))
         = (Inr (True, Some ''data/cleaned/cleaned_noncommercial_20260223.csv'', Some sm), n')
     \<and> runFullPipeline example_commercial_failing example_parse True False (example_pipeline example_cleaner)
         = (Inr False, p')
     \<and> noncommercial_cleaner p' = n'
     \<and> results_commercial p' = Some (failure_record ''Commercial data cleaning failed'')
     \<and> results_non_commercial p'
         = Some (success_record (Some ''data/cleaned/cleaned_noncommercial_20260223.csv'') (Some sm))"
proof -
  let ?p = "example_pipeline example_cleaner"
  have c: "example_commercial_failing True False (commercial_cleaner ?p) = (Inr (False, None, None), ())"
    by (simp add: example_commercial_failing_def)
  have k: "noncommercial_cleaner ?p = example_cleaner" by (simp add: example_pipeline_def)
  from runCleaningPipeline_export [OF example_files(1) example_required(1) example_years_whole(1), of True False]
    example_summarisable(1) [of False] example_output_path(1) k
  obtain sm n' where n: "runCleaningPipeline example_parse True False (noncommercial_cleaner ?p)
         = (Inr (True, Some ''data/cleaned/cleaned_noncommercial_20260223.csv'', Some sm), n')"
    by auto
  from runFullPipeline_both_recorded [of example_commercial_failing True False ?p False None None "()", OF c _ n]
  obtain p' where "runFullPipeline example_commercial_failing example_parse True False ?p = (Inr False, p')"
    "noncommercial_cleaner p' = n'"
    "results_commercial p' = Some (failure_record ''Commercial data cleaning failed'')"
    "results_non_commercial p'
       = Some (success_record (Some ''data/cleaned/cleaned_noncommercial_20260223.csv'') (Some sm))"
    by auto
  with c n show ?thesis by blast
qed

text \<open>
  C7 as stated, for every run, fails where a cleaner raises: the only non-commercial row
  has no exchange value, the cleaned table is empty, the TypeError of
  generateSummaryStatistics leaves runFullPipeline, no flag is returned and nothing is
  recorded for the non-commercial dataset.
\<close>

theorem runFullPipeline_counterexample:
  "fst (runFullPipeline example_commercial example_parse True False (example_pipeline example_null_cleaner))
     = Inl TypeError
   \<and> results_non_commercial
       (snd (runFullPipeline example_commercial example_parse True False (example_pipeline example_null_cleaner)))
     = None"
proof -
  let ?q = "example_pipeline example_null_cleaner"
  let ?p = "startPipeline True False ?q"
  have c: "example_commercial True False (commercial_cleaner ?p)
             = (Inr (True, Some ''data/cleaned/cleaned_commercial_20260223.csv'', Some example_summary), ())"
    by (simp add: example_commercial_def)
  from runCommercialCleaning_returns [of example_commercial True False ?p, OF c]
  obtain p1 where 1: "runCommercialCleaning example_commercial True False ?p = (Inr True, p1)"
    and r1: "results_non_commercial p1 = results_non_commercial ?p"
    and k1: "noncommercial_cleaner p1 = noncommercial_cleaner ?p"
    by auto
  have k: "noncommercial_cleaner p1 = example_null_cleaner"
    by (simp add: k1 example_pipeline_def)
  from runCleaningPipeline_export [OF example_files(2) example_required(2) example_years_whole(2), of True False]
    example_summarisable(3) [of True False]
  obtain n where n: "runCleaningPipeline example_parse True False (noncommercial_cleaner p1) = (Inl TypeError, n)"
    by (auto simp: k)
  from runNoncommercialCleaning_raises [OF n]
  obtain p2 where 2: "runNoncommercialCleaning example_parse True False p1 = (Inl TypeError, p2)"
    and r2: "results_non_commercial p2 = results_non_commercial p1"
    by auto
  have "runFullPipeline example_commercial example_parse True False ?q = (Inl TypeError, p2)"
    by (simp add: runFullPipeline_def Let_def 1 2)
  moreover have "results_non_commercial p2 = None"
    by (simp add: r2 r1 example_pipeline_def)
  ultimately show ?thesis by simp
qed

text \<open>
  C8. validateDataTypes is idempotent: applied again to the state a first application
  left, it returns again, leaves the frame cell for cell as it was (so the same nulls),
  and logs what the first application logged (so the same null counts).
\<close>

theorem validateDataTypes_idempotent:
  assumes "validateDataTypes parse s = (Inr u, s1)"
  shows "\<exists>s2. validateDataTypes parse s1 = (Inr (), s2) \<and> data s2 = data s1
           \<and> drop (length (logging s1)) (logging s2) = drop (length (logging s)) (logging s1)"
proof -
  from validateDataTypes_Inr [OF assms] obtain df where df: "data s = Some df"
    "data s1 = Some (coerce parse df)" "years_whole parse df" "''year'' \<in> set (columns df)"
    "''exchange_value'' \<in> set (columns df)"
    by blast
  from validateDataTypes_ok [OF df(2) _ _ years_whole_coerce [OF df(3)]] df(4,5)
  obtain s2 where 2: "validateDataTypes parse s1 = (Inr (), s2)" by auto
  from validateDataTypes_Inr [OF 2] df(2) have d2: "data s2 = data s1" by (auto simp: coerce_idem)
  from validateDataTypes_log [OF assms df(1)] have l1: "logging s1 = logging s @ type_log (coerce parse df)" .
  from validateDataTypes_log [OF 2 df(2)] have l2: "logging s2 = logging s1 @ type_log (coerce parse df)"
    by (simp add: coerce_idem)
  from 2 d2 l1 l2 show ?thesis by simp
qed

theorem validateDataTypes_idempotent_witness:
  "\<exists>s1 s2. validateDataTypes example_parse (example_cleaner\<lparr>data := Some example_frame\<rparr>) = (Inr (), s1)
     \<and> data s1 = Some (coerce example_parse example_frame)
     \<and> validateDataTypes example_parse s1 = (Inr (), s2) \<and> data s2 = data s1
     \<and> drop (length (logging s1)) (logging s2)
         = drop (length (logging (example_cleaner\<lparr>data := Some example_frame\<rparr>))) (logging s1)"
proof -
  let ?s = "example_cleaner\<lparr>data := Some example_frame\<rparr>"
  have d: "data ?s = Some example_frame" by simp
  have c: "''year'' \<in> set (columns example_frame)" "''exchange_value'' \<in> set (columns example_frame)"
    by (simp_all add: example_frame_def required_columns_def)
  from validateDataTypes_ok [OF d c example_years_whole(1)]
  obtain s1 where 1: "validateDataTypes example_parse ?s = (Inr (), s1)" by blast
  from validateDataTypes_Inr [OF 1] have d1: "data s1 = Some (coerce example_parse example_frame)" by simp
  from validateDataTypes_idempotent [OF 1] 1 d1 show ?thesis by blast
qed

text \<open>
  C9. generateSummaryStatistics returns no summary for a frame without rows: it raises.
  So a run whose file loads and passes the schema check, and whose cleaned table is empty,
  ends in TypeError; and no run that leaves an empty frame returns success.
\<close>

theorem empty_table_no_summary:
  "(data s = Some df \<and> rows df = [] \<longrightarrow> (\<exists>e. fst (generateSummaryStatistics s) = Inl e))
   \<and> (noncomm_files (input_dir s) = (name, Some df0) # rest \<and> set required_columns \<subseteq> set (columns df0)
        \<and> years_whole parse df0 \<and> rows (clean parse ra rd df0) = []
      \<longrightarrow> fst (runCleaningPipeline parse ra rd s) = Inl TypeError)
   \<and> (runCleaningPipeline parse ra rd s = (r, s') \<and> data s' = Some dfc \<and> rows dfc = []
      \<longrightarrow> (\<forall>f sm. r \<noteq> Inr (True, f, sm)))"
proof (intro conjI impI allI)
  assume "data s = Some df \<and> rows df = []"
  then show "\<exists>e. fst (generateSummaryStatistics s) = Inl e"
    by (simp add: generateSummaryStatistics_def Let_def getitem_def column_min_def numbers_def)
next
  assume a: "noncomm_files (input_dir s) = (name, Some df0) # rest \<and> set required_columns \<subseteq> set (columns df0)
        \<and> years_whole parse df0 \<and> rows (clean parse ra rd df0) = []"
  then have "\<not> summarisable (clean parse ra rd df0)"
    by (simp add: summarisable_def year_column_def numbers_def)
  with runCleaningPipeline_export [of s name df0 rest parse ra rd] a
  show "fst (runCleaningPipeline parse ra rd s) = Inl TypeError" by auto
next
  fix f sm
  assume a: "runCleaningPipeline parse ra rd s = (r, s') \<and> data s' = Some dfc \<and> rows dfc = []"
  show "r \<noteq> Inr (True, f, sm)"
  proof
    assume r: "r = Inr (True, f, sm)"
    with a have run: "runCleaningPipeline parse ra rd s = (Inr (True, f, sm), s')" by simp
    from runCleaningPipeline_success_loaded [OF run]
    obtain name df rest where l: "noncomm_files (input_dir s) = (name, Some df) # rest" by blast
    from runCleaningPipeline_success [OF l run]
    have h: "set required_columns \<subseteq> set (columns df)" "years_whole parse df"
      "numbers (year_column (clean parse ra rd df)) \<noteq> []"
      by simp_all
    from runCleaningPipeline_export [OF l h(1,2), of ra rd] run
    have "data s' = Some (clean parse ra rd df)" by auto
    with a have "rows (clean parse ra rd df) = []" by simp
    with h(3) show False by (simp add: year_column_def numbers_def)
  qed
qed

theorem empty_table_no_summary_witness:
  "data (example_cleaner\<lparr>data := Some example_empty_frame\<rparr>) = Some example_empty_frame
   \<and> rows example_empty_frame = []
   \<and> (\<exists>e. fst (generateSummaryStatistics (example_cleaner\<lparr>data := Some example_empty_frame\<rparr>)) = Inl e)
   \<and> noncomm_files (input_dir example_null_cleaner) = (''tidied_noncomm_ev.csv'', Some example_null_frame) # []
   \<and> set required_columns \<subseteq> set (columns example_null_frame)
   \<and> years_whole example_parse example_null_frame
   \<and> rows (clean example_parse True False example_null_frame) = []
   \<and> fst (runCleaningPipeline example_parse True False example_null_cleaner) = Inl TypeError
   \<and> data (snd (runCleaningPipeline example_parse True False example_null_cleaner))
       = Some (clean example_parse True False example_null_frame)
   \<and> (\<forall>f sm. fst (runCleaningPipeline example_parse True False example_null_cleaner) \<noteq> Inr (True, f, sm))"
proof -
  let ?s = "example_cleaner\<lparr>data := Some example_empty_frame\<rparr>"
  let ?run = "runCleaningPipeline example_parse True False example_null_cleaner"
  have 1: "data ?s = Some example_empty_frame" "rows example_empty_frame = []"
    by (simp_all add: example_empty_frame_def)
  from runCleaningPipeline_export [OF example_files(2) example_required(2) example_years_whole(2), of True False]
  have d: "data (snd ?run) = Some (clean example_parse True False example_null_frame)" by auto
  have p: "?run = (fst ?run, snd ?run)" by simp
  from empty_table_no_summary [where s = ?s and df = example_empty_frame] 1
  have a1: "\<exists>e. fst (generateSummaryStatistics ?s) = Inl e" by simp
  from empty_table_no_summary [where s = example_null_cleaner and name = "''tidied_noncomm_ev.csv''"
      and ?df0.0 = example_null_frame and rest = "[]" and parse = example_parse and ra = True and rd = False]
    example_files(2) example_required(2) example_years_whole(2) example_clean_rows(3) [of True False]
  have a2: "fst ?run = Inl TypeError" by simp
  from empty_table_no_summary [where s = example_null_cleaner and parse = example_parse and ra = True
      and rd = False and r = "fst ?run" and s' = "snd ?run"
      and dfc = "clean example_parse True False example_null_frame"]
    p d example_clean_rows(3) [of True False]
  have b: "\<forall>f sm. fst ?run \<noteq> Inr (True, f, sm)" by simp
  note a = a1 a2
  from 1 a b d example_files(2) example_required(2) example_years_whole(2) example_clean_rows(3) [of True False]
  show ?thesis by simp
qed

text \<open>
  C10. Each row-removal stage keeps the relative order of the rows it keeps, and so does
  the run. For every frame, removeNullValues and removeAggregateRows leave the rows at a
  strictly increasing list of positions of the frame they found: the positions of the rows
  the stage keeps (all of them, when the stage is switched off or stops at a missing
  column). For every table that loads with every required column and years that convert
  to 64-bit integers, the rows of the exported file are the cleaned forms of the loaded
  rows at a strictly increasing list of positions, exactly those of the rows that survive
  both stages. Every other loaded table is not exported: the output directory is as it was
  and the frame is the loaded table, row for row.
\<close>

theorem order_preserved:
  "(noncomm_files (input_dir s) = (name, Some df) # rest \<longrightarrow>
      (if set required_columns \<subseteq> set (columns df) \<and> years_whole parse df
       then \<exists>out is. map_of (output_dir (snd (runCleaningPipeline parse ra rd s))) (output_name (today s))
                        = Some out
              \<and> data (snd (runCleaningPipeline parse ra rd s)) = Some out
              \<and> sorted_wrt (<) is
              \<and> set is = {i. i < length (rows df) \<and> survives parse ra (rows df ! i)}
              \<and> rows out = map (\<lambda>i. cleaned_row parse rd df (rows df ! i)) is
       else output_dir (snd (runCleaningPipeline parse ra rd s)) = output_dir s
            \<and> data (snd (runCleaningPipeline parse ra rd s)) = Some df))
   \<and> (data t = Some d \<longrightarrow>
        (\<exists>out is. data (snd (removeNullValues t)) = Some out \<and> sorted_wrt (<) is
           \<and> set is = {i. i < length (rows d)
                           \<and> (''exchange_value'' \<in> set (columns d) \<longrightarrow> notna_exchange_value (rows d ! i))}
           \<and> rows out = map (nth (rows d)) is))
   \<and> (data t = Some d \<longrightarrow>
        (\<exists>out is. data (snd (removeAggregateRows ra t)) = Some out \<and> sorted_wrt (<) is
           \<and> set is = {i. i < length (rows d)
                           \<and> (ra \<and> ''ecosystem_type'' \<in> set (columns d) \<longrightarrow> \<not> is_aggregate (rows d ! i))}
           \<and> rows out = map (nth (rows d)) is))"
proof (intro conjI impI)
  assume l: "noncomm_files (input_dir s) = (name, Some df) # rest"
  let ?run = "runCleaningPipeline parse ra rd s"
  show "if set required_columns \<subseteq> set (columns df) \<and> years_whole parse df
       then \<exists>out is. map_of (output_dir (snd ?run)) (output_name (today s)) = Some out
              \<and> data (snd ?run) = Some out
              \<and> sorted_wrt (<) is
              \<and> set is = {i. i < length (rows df) \<and> survives parse ra (rows df ! i)}
              \<and> rows out = map (\<lambda>i. cleaned_row parse rd df (rows df ! i)) is
       else output_dir (snd ?run) = output_dir s \<and> data (snd ?run) = Some df"
  proof (cases "set required_columns \<subseteq> set (columns df)")
    case False
    from runCleaningPipeline_schema_failure [OF l False, of parse ra rd] False
    show ?thesis by auto
  next
    case req: True
    show ?thesis
    proof (cases "years_whole parse df")
      case False
      from runCleaningPipeline_not_whole [OF l req False, of ra rd] False
      show ?thesis by auto
    next
      case True
      let ?is = "filter (\<lambda>i. survives parse ra (rows df ! i)) [0..<length (rows df)]"
      from runCleaningPipeline_export [OF l req True, of ra rd]
      have o: "map_of (output_dir (snd ?run)) (output_name (today s)) = Some (clean parse ra rd df)"
        "data (snd ?run) = Some (clean parse ra rd df)"
        by auto
      have 1: "sorted_wrt (<) ?is" by (rule sorted_wrt_filter) simp
      have 2: "set ?is = {i. i < length (rows df) \<and> survives parse ra (rows df ! i)}" by auto
      have 3: "rows (clean parse ra rd df) = map (\<lambda>i. cleaned_row parse rd df (rows df ! i)) ?is"
        by (simp add: rows_clean filter_by_index [of "survives parse ra" "rows df"] o_def)
      from o 1 2 3 have "\<exists>out is. map_of (output_dir (snd ?run)) (output_name (today s)) = Some out
              \<and> data (snd ?run) = Some out
              \<and> sorted_wrt (<) is
              \<and> set is = {i. i < length (rows df) \<and> survives parse ra (rows df ! i)}
              \<and> rows out = map (\<lambda>i. cleaned_row parse rd df (rows df ! i)) is"
        by blast
      with req True show ?thesis by simp
    qed
  qed
next
  assume "data t = Some d"
  then show "\<exists>out is. data (snd (removeNullValues t)) = Some out \<and> sorted_wrt (<) is
           \<and> set is = {i. i < length (rows d)
                           \<and> (''exchange_value'' \<in> set (columns d) \<longrightarrow> notna_exchange_value (rows d ! i))}
           \<and> rows out = map (nth (rows d)) is"
    by (rule removeNullValues_positions)
next
  assume "data t = Some d"
  then show "\<exists>out is. data (snd (removeAggregateRows ra t)) = Some out \<and> sorted_wrt (<) is
           \<and> set is = {i. i < length (rows d)
                           \<and> (ra \<and> ''ecosystem_type'' \<in> set (columns d) \<longrightarrow> \<not> is_aggregate (rows d ! i))}
           \<and> rows out = map (nth (rows d)) is"
    by (rule removeAggregateRows_positions)
qed

theorem order_preserved_witness:
  "noncomm_files (input_dir example_cleaner) = (''tidied_noncomm_ev.csv'', Some example_frame) # []
   \<and> (\<exists>out is. map_of (output_dir (snd (runCleaningPipeline example_parse False False example_cleaner)))
                  ''cleaned_noncommercial_20260223.csv'' = Some out
          \<and> sorted_wrt (<) is \<and> set is = {0, 1}
          \<and> rows out = map (\<lambda>i. cleaned_row example_parse False example_frame (rows example_frame ! i)) is
          \<and> rows out = [example_row 2005 ''Oahu'' ''Reef'' (Num 100),
                         example_row 2006 ''Oahu'' ''All Ecosystems'' (Num 250)])
   \<and> noncomm_files (input_dir example_big_year_cleaner)
       = (''tidied_noncomm_ev.csv'', Some example_big_year_frame) # []
   \<and> output_dir (snd (runCleaningPipeline example_parse False False example_big_year_cleaner)) = []
   \<and> data (snd (runCleaningPipeline example_parse False False example_big_year_cleaner))
       = Some example_big_year_frame
   \<and> data (example_cleaner\<lparr>data := Some (coerce example_parse example_frame)\<rparr>)
       = Some (coerce example_parse example_frame)
   \<and> (\<exists>out is. data (snd (removeNullValues
                    (example_cleaner\<lparr>data := Some (coerce example_parse example_frame)\<rparr>))) = Some out
          \<and> sorted_wrt (<) is \<and> set is = {0, 1}
          \<and> rows out = map (nth (rows (coerce example_parse example_frame))) is)
   \<and> (\<exists>out is. data (snd (removeAggregateRows True
                    (example_cleaner\<lparr>data := Some (coerce example_parse example_frame)\<rparr>))) = Some out
          \<and> sorted_wrt (<) is \<and> set is = {0, 2}
          \<and> rows out = map (nth (rows (coerce example_parse example_frame))) is)"
proof -
  let ?t = "example_cleaner\<lparr>data := Some (coerce example_parse example_frame)\<rparr>"
  let ?d = "coerce example_parse example_frame"
  note th = order_preserved [where s = example_cleaner and name = "''tidied_noncomm_ev.csv''"
      and df = example_frame and rest = "[]" and parse = example_parse and ra = False and rd = False
      and t = ?t and d = ?d]
  note th_big = order_preserved [where s = example_big_year_cleaner and name = "''tidied_noncomm_ev.csv''"
      and df = example_big_year_frame and rest = "[]" and parse = example_parse and ra = False
      and rd = False]
  note th_agg = order_preserved [where ra = True and t = ?t and d = ?d]
  have dt: "data ?t = Some ?d" by simp
  have s1: "{i. i < length (rows example_frame) \<and> survives example_parse False (rows example_frame ! i)}
              = {0, 1}"
  proof -
    have l: "length (rows example_frame) = 3" by (simp add: example_frame_def)
    have sv: "survives example_parse False (rows example_frame ! 0)"
      "survives example_parse False (rows example_frame ! 1)"
      "\<not> survives example_parse False (rows example_frame ! 2)"
      by (simp_all add: example_frame_def survives_def coerce_row_def example_row_def cell_of_def
          set_cell_def notna_exchange_value_def example_parse_def)
    have "\<And>i. i < 3 \<longleftrightarrow> i = 0 \<or> i = 1 \<or> i = (2::nat)" by auto
    with sv show ?thesis unfolding l by auto
  qed
  have lt3: "\<And>i. i < 3 \<longleftrightarrow> i = 0 \<or> i = 1 \<or> i = (2::nat)" by auto
  have cd: "columns ?d = required_columns" by (simp add: example_frame_def)
  have ld: "length (rows ?d) = 3" by (simp add: example_coerce_rows)
  have nn: "notna_exchange_value (rows ?d ! 0)" "notna_exchange_value (rows ?d ! 1)"
    "\<not> notna_exchange_value (rows ?d ! 2)"
    by (simp_all add: example_coerce_rows example_row_def cell_of_def notna_exchange_value_def)
  have ag: "\<not> is_aggregate (rows ?d ! 0)" "is_aggregate (rows ?d ! 1)" "\<not> is_aggregate (rows ?d ! 2)"
    by (simp_all add: example_coerce_rows example_row_def cell_of_def is_aggregate_def)
  have s2: "{i. i < length (rows ?d)
                \<and> (''exchange_value'' \<in> set (columns ?d) \<longrightarrow> notna_exchange_value (rows ?d ! i))}
              = {0, 1}"
    using nn lt3 unfolding ld cd by (auto simp: required_columns_def)
  have s3: "{i. i < length (rows ?d)
                \<and> (True \<and> ''ecosystem_type'' \<in> set (columns ?d) \<longrightarrow> \<not> is_aggregate (rows ?d ! i))}
              = {0, 2}"
    using ag lt3 unfolding ld cd by (auto simp: required_columns_def)
  from th example_files(1) example_required(1) example_years_whole(1) example_output_path(3)
  obtain out "is" where o:
    "map_of (output_dir (snd (runCleaningPipeline example_parse False False example_cleaner)))
       ''cleaned_noncommercial_20260223.csv'' = Some out"
    "data (snd (runCleaningPipeline example_parse False False example_cleaner)) = Some out"
    "sorted_wrt (<) is"
    "set is = {i. i < length (rows example_frame) \<and> survives example_parse False (rows example_frame ! i)}"
    "rows out = map (\<lambda>i. cleaned_row example_parse False example_frame (rows example_frame ! i)) is"
    by auto
  from runCleaningPipeline_export [OF example_files(1) example_required(1) example_years_whole(1), of False False]
    o(2)
  have "out = clean example_parse False False example_frame" by auto
  then have r: "rows out = [example_row 2005 ''Oahu'' ''Reef'' (Num 100),
                         example_row 2006 ''Oahu'' ''All Ecosystems'' (Num 250)]"
    by (simp add: example_clean_rows)
  from o r s1 have a: "\<exists>out is. map_of (output_dir (snd (runCleaningPipeline example_parse False False example_cleaner)))
                  ''cleaned_noncommercial_20260223.csv'' = Some out
          \<and> sorted_wrt (<) is \<and> set is = {0, 1}
          \<and> rows out = map (\<lambda>i. cleaned_row example_parse False example_frame (rows example_frame ! i)) is
          \<and> rows out = [example_row 2005 ''Oahu'' ''Reef'' (Num 100),
                         example_row 2006 ''Oahu'' ''All Ecosystems'' (Num 250)]"
    by auto
  from th_big example_big_year
  have b: "output_dir (snd (runCleaningPipeline example_parse False False example_big_year_cleaner)) = []"
    "data (snd (runCleaningPipeline example_parse False False example_big_year_cleaner))
       = Some example_big_year_frame"
    by simp_all
  from th dt s2
  have c: "\<exists>out is. data (snd (removeNullValues ?t)) = Some out
          \<and> sorted_wrt (<) is \<and> set is = {0, 1} \<and> rows out = map (nth (rows ?d)) is"
    by simp
  from th_agg dt s3
  have d: "\<exists>out is. data (snd (removeAggregateRows True ?t)) = Some out
          \<and> sorted_wrt (<) is \<and> set is = {0, 2} \<and> rows out = map (nth (rows ?d)) is"
    by simp
  from a b c d dt example_files(1) example_big_year(1) show ?thesis by (intro conjI)
qed

end
